theory Spec2Isabelle
  imports Main "HOL-Library.Word"
begin

unbundle bit_operations_syntax

section \<open>The logging library as the logger package uses it\<close>

text \<open>
  The package builds on go.uber.org/zap and gopkg.in/natefinch/lumberjack.v2. Neither library
  is part of the repository; this section fixes the part of their behaviour that the package
  relies on: severities and their order, the encoder configuration, cores that gate by
  severity, and the shape of an encoded record.
\<close>

subsection \<open>Severities\<close>

datatype Level =
  DebugLevel | InfoLevel | WarnLevel | ErrorLevel | DPanicLevel | PanicLevel | FatalLevel

text \<open>The numeric value of a zapcore.Level; a level enables every level at or above it.\<close>

fun level_num :: "Level \<Rightarrow> int" where
  "level_num DebugLevel = -1"
| "level_num InfoLevel = 0"
| "level_num WarnLevel = 1"
| "level_num ErrorLevel = 2"
| "level_num DPanicLevel = 3"
| "level_num PanicLevel = 4"
| "level_num FatalLevel = 5"

definition Enabled :: "Level \<Rightarrow> Level \<Rightarrow> bool" where
  "Enabled l lvl = (level_num l \<le> level_num lvl)"

fun Level_String :: "Level \<Rightarrow> string" where
  "Level_String DebugLevel = ''debug''"
| "Level_String InfoLevel = ''info''"
| "Level_String WarnLevel = ''warn''"
| "Level_String ErrorLevel = ''error''"
| "Level_String DPanicLevel = ''dpanic''"
| "Level_String PanicLevel = ''panic''"
| "Level_String FatalLevel = ''fatal''"

text \<open>
  Modelled from the spec: zapcore.Level.UnmarshalText is library code outside src/. The spec
  gives the minimum level as one of debug, info, warn, error, fatal, panic and says that an
  unrecognized string fails. \<open>Init\<close> below takes the parser as a parameter; this
  instance is used to evaluate it on concrete configurations.
\<close>

definition UnmarshalText :: "string \<Rightarrow> Level option" where
  "UnmarshalText text =
     (if text = ''debug'' then Some DebugLevel
      else if text = ''info'' then Some InfoLevel
      else if text = ''warn'' then Some WarnLevel
      else if text = ''error'' then Some ErrorLevel
      else if text = ''fatal'' then Some FatalLevel
      else if text = ''panic'' then Some PanicLevel
      else None)"

definition levelNames :: "string list" where
  "levelNames = [''debug'', ''info'', ''warn'', ''error'', ''fatal'', ''panic'']"

subsection \<open>Structured fields\<close>

text \<open>The three field constructors the middleware uses: zap.Int, zap.String, zap.Duration.\<close>

datatype Field = ZInt string int | ZString string string | ZDuration string int

subsection \<open>Encoder configuration\<close>

datatype LevelEncoder = LowercaseLevelEncoder | LowercaseColorLevelEncoder
datatype TimeEncoder = ISO8601TimeEncoder
datatype DurationEncoder = StringDurationEncoder
datatype CallerEncoder = ShortCallerEncoder

record EncoderConfig =
  TimeKey :: string
  LevelKey :: string
  NameKey :: string
  CallerKey :: string
  FunctionKey :: string
  MessageKey :: string
  StacktraceKey :: string
  LineEnding :: string
  EncodeLevel :: LevelEncoder
  EncodeTime :: TimeEncoder
  EncodeDuration :: DurationEncoder
  EncodeCaller :: CallerEncoder

definition OmitKey :: string where
  "OmitKey = ''''"

definition DefaultLineEnding :: string where
  "DefaultLineEnding = [CHR 0x0A]"

text \<open>
  Modelled from the spec: the level encoders of zapcore are library code outside src/. The
  spec gives the level of a record as the lowercase severity name, colorized in development
  mode. The plain encoder writes the lowercase name; the colour encoder wraps the lowercase
  name in the ANSI escape sequence of the level's colour (31 red, 33 yellow, 34 blue,
  35 magenta).
\<close>

fun levelColor :: "Level \<Rightarrow> string" where
  "levelColor DebugLevel = ''35''"
| "levelColor InfoLevel = ''34''"
| "levelColor WarnLevel = ''33''"
| "levelColor l = ''31''"

fun encodeLevel :: "LevelEncoder \<Rightarrow> Level \<Rightarrow> string" where
  "encodeLevel LowercaseLevelEncoder l = Level_String l"
| "encodeLevel LowercaseColorLevelEncoder l =
     [CHR 0x1B, CHR ''[''] @ levelColor l @ ''m'' @ Level_String l @ [CHR 0x1B, CHR ''['', CHR ''0'', CHR ''m'']"

subsection \<open>Sinks and cores\<close>

text \<open>
  A lumberjack.Logger value: the rotation policy of one file. Instances live in a store
  (a list; the address of an instance is its index), so that sharing is visible.
\<close>

record Lumberjack =
  Filename :: string
  MaxSize :: int
  lj_MaxBackups :: int
  MaxAge :: int
  lj_Compress :: bool

type_synonym addr = nat

definition alloc :: "Lumberjack list \<Rightarrow> Lumberjack \<Rightarrow> addr \<times> Lumberjack list" where
  "alloc h v = (length h, h @ [v])"

text \<open>
  A write syncer is either the locked standard output (zapcore.Lock(os.Stdout)) or
  zapcore.AddSync of a pointer to a lumberjack instance.
\<close>

datatype WriteSyncer = Lock_Stdout | AddSync addr

datatype Encoder = NewConsoleEncoder EncoderConfig | NewJSONEncoder EncoderConfig

text \<open>zapcore.NewCore(enc, ws, enab).\<close>

record Core =
  enc :: Encoder
  out :: WriteSyncer
  enab :: Level

subsection \<open>Loggers and options\<close>

text \<open>
  A zap.Logger. \<open>core\<close> is the tee of the cores given to zap.New; \<open>addStack\<close> is the
  level from which a stack trace is attached (\<open>None\<close>: never, the default of zap.New);
  \<open>withFields\<close> holds the context fields added by With.
\<close>

record Logger =
  core :: "Core list"
  addCaller :: bool
  callerSkip :: int
  addStack :: "Level option"
  name :: string
  withFields :: "Field list"

datatype Option = AddCaller | AddCallerSkip int | AddStacktrace Level | WithCaller bool

fun applyOption :: "Option \<Rightarrow> Logger \<Rightarrow> Logger" where
  "applyOption AddCaller log = log\<lparr>addCaller := True\<rparr>"
| "applyOption (AddCallerSkip n) log = log\<lparr>callerSkip := callerSkip log + n\<rparr>"
| "applyOption (AddStacktrace l) log = log\<lparr>addStack := Some l\<rparr>"
| "applyOption (WithCaller b) log = log\<lparr>addCaller := b\<rparr>"

definition NewTee :: "Core list \<Rightarrow> Core list" where
  "NewTee cores = cores"

definition zap_New :: "Core list \<Rightarrow> Option list \<Rightarrow> Logger" where
  "zap_New c opts =
     fold applyOption opts
       \<lparr>core = c, addCaller = False, callerSkip = 0, addStack = None, name = '''', withFields = []\<rparr>"

text \<open>Logger.Sugar: a clone of the logger that skips two more frames for the caller.\<close>

definition Sugar_of :: "Logger \<Rightarrow> Logger" where
  "Sugar_of log = log\<lparr>callerSkip := callerSkip log + 2\<rparr>"

subsection \<open>Entries and their encoding\<close>

text \<open>
  A zapcore.Entry as the logger builds it. The time, the caller and the stack trace are kept
  symbolic: \<open>ent_Caller_Defined\<close> says that the caller was recorded, \<open>ent_Stack\<close>
  that a stack trace was attached.
\<close>

record Entry =
  ent_Level :: Level
  ent_LoggerName :: string
  ent_Message :: string
  ent_Caller_Defined :: bool
  ent_Stack :: bool

text \<open>
  An encoded value: a string, a number, the entry's time as the time encoder renders it,
  a duration in nanoseconds as the duration encoder renders it, the caller as the caller
  encoder renders it, the function name, the stack trace.
\<close>

datatype JValue =
  JString string | JInt int | JTime TimeEncoder | JDuration DurationEncoder int
  | JCaller CallerEncoder | JFunction | JStack

fun encodeField :: "EncoderConfig \<Rightarrow> Field \<Rightarrow> string \<times> JValue" where
  "encodeField ec (ZInt k v) = (k, JInt v)"
| "encodeField ec (ZString k v) = (k, JString v)"
| "encodeField ec (ZDuration k v) = (k, JDuration (EncodeDuration ec) v)"

text \<open>
  Modelled from the spec: the JSON encoder of zapcore is library code outside src/. Section 6
  of the spec gives the record as an object with the keys of the encoder configuration: level
  and time, the logger name when there is one, the caller when it was recorded, the message,
  the structured fields (those of With first), and the stack trace when one was attached. A
  key that is configured as the empty string is omitted.
\<close>

definition json_EncodeEntry ::
  "EncoderConfig \<Rightarrow> Field list \<Rightarrow> Entry \<Rightarrow> Field list \<Rightarrow> (string \<times> JValue) list" where
  "json_EncodeEntry ec ctx ent fs =
     (if LevelKey ec \<noteq> [] then [(LevelKey ec, JString (encodeLevel (EncodeLevel ec) (ent_Level ent)))] else [])
     @ (if TimeKey ec \<noteq> [] then [(TimeKey ec, JTime (EncodeTime ec))] else [])
     @ (if ent_LoggerName ent \<noteq> [] \<and> NameKey ec \<noteq> []
        then [(NameKey ec, JString (ent_LoggerName ent))] else [])
     @ (if ent_Caller_Defined ent
        then (if CallerKey ec \<noteq> [] then [(CallerKey ec, JCaller (EncodeCaller ec))] else [])
             @ (if FunctionKey ec \<noteq> [] then [(FunctionKey ec, JFunction)] else [])
        else [])
     @ (if MessageKey ec \<noteq> [] then [(MessageKey ec, JString (ent_Message ent))] else [])
     @ map (encodeField ec) (ctx @ fs)
     @ (if ent_Stack ent \<and> StacktraceKey ec \<noteq> [] then [(StacktraceKey ec, JStack)] else [])"

text \<open>
  The console encoder writes the same items as columns of one line, without their keys,
  followed by the structured fields as a JSON object.
\<close>

datatype Encoded =
  JSONObject "(string \<times> JValue) list"
  | ConsoleLine "JValue list" "(string \<times> JValue) list"

definition console_EncodeEntry ::
  "EncoderConfig \<Rightarrow> Field list \<Rightarrow> Entry \<Rightarrow> Field list \<Rightarrow> Encoded" where
  "console_EncodeEntry ec ctx ent fs =
     ConsoleLine
       ((if TimeKey ec \<noteq> [] then [JTime (EncodeTime ec)] else [])
        @ (if LevelKey ec \<noteq> [] then [JString (encodeLevel (EncodeLevel ec) (ent_Level ent))] else [])
        @ (if ent_LoggerName ent \<noteq> [] \<and> NameKey ec \<noteq> []
           then [JString (ent_LoggerName ent)] else [])
        @ (if ent_Caller_Defined ent
           then (if CallerKey ec \<noteq> [] then [JCaller (EncodeCaller ec)] else [])
                @ (if FunctionKey ec \<noteq> [] then [JFunction] else [])
           else [])
        @ (if MessageKey ec \<noteq> [] then [JString (ent_Message ent)] else [])
        @ (if ent_Stack ent \<and> StacktraceKey ec \<noteq> [] then [JStack] else []))
       (map (encodeField ec) (ctx @ fs))"

fun EncodeEntry :: "Encoder \<Rightarrow> Field list \<Rightarrow> Entry \<Rightarrow> Field list \<Rightarrow> Encoded" where
  "EncodeEntry (NewJSONEncoder ec) ctx ent fs = JSONObject (json_EncodeEntry ec ctx ent fs)"
| "EncodeEntry (NewConsoleEncoder ec) ctx ent fs = console_EncodeEntry ec ctx ent fs"

text \<open>One write of a core: the sink, the record (entry and call-site fields) and its encoding.\<close>

record Write =
  w_sink :: WriteSyncer
  w_entry :: Entry
  w_fields :: "Field list"
  w_text :: Encoded

definition Core_Write :: "Field list \<Rightarrow> Entry \<Rightarrow> Field list \<Rightarrow> Core \<Rightarrow> Write" where
  "Core_Write ctx ent fs c =
     \<lparr>w_sink = out c, w_entry = ent, w_fields = fs, w_text = EncodeEntry (enc c) ctx ent fs\<rparr>"

subsection \<open>Logging through a logger\<close>

text \<open>
  How a call ends when it does not return normally: a nil pointer is dereferenced, the
  logger panics after writing (Panic), or the process exits after writing (Fatal).
\<close>

datatype fault = NilDereference | Panicked string | Exited

text \<open>
  Modelled from the spec: the leveled methods of zap.Logger are library code outside src/.
  Section 4.1 of the spec: a leveled operation appends a record to every sink whose minimum
  level admits it; Fatal terminates the process after writing, Panic raises a fault after
  writing. The caller is recorded when \<open>addCaller\<close> is set, a stack trace is attached from
  the \<open>addStack\<close> level on. The panic and the exit happen whether or not a core took the
  entry.
\<close>

definition Logger_log :: "Logger \<Rightarrow> Level \<Rightarrow> string \<Rightarrow> Field list \<Rightarrow> fault option \<times> Write list" where
  "Logger_log log lvl msg fs =
     (let ent = \<lparr>ent_Level = lvl, ent_LoggerName = name log, ent_Message = msg,
                 ent_Caller_Defined = addCaller log,
                 ent_Stack = (case addStack log of None \<Rightarrow> False | Some l \<Rightarrow> Enabled l lvl)\<rparr>;
          ws = map (Core_Write (withFields log) ent fs) (filter (\<lambda>c. Enabled (enab c) lvl) (core log))
      in ((case lvl of PanicLevel \<Rightarrow> Some (Panicked msg) | FatalLevel \<Rightarrow> Some Exited | _ \<Rightarrow> None), ws))"

text \<open>
  Logger.With of zap: given no fields, it returns its receiver before reading it; given
  fields, it clones the logger, which faults on the nil pointer.
\<close>

definition Logger_With :: "Logger option \<Rightarrow> Field list \<Rightarrow> fault + Logger option" where
  "Logger_With l fs =
     (if length fs = 0 then Inr l
      else (case l of
              None \<Rightarrow> Inl NilDereference
            | Some log \<Rightarrow> Inr (Some (log\<lparr>withFields := withFields log @ fs\<rparr>))))"

text \<open>
  Logger.Sync syncs every core. Syncing a lumberjack writer wrapped by AddSync does nothing;
  syncing the standard output gives what the operating system returns
  (\<open>stdoutSync\<close>, \<open>None\<close> is nil). The errors are collected.
\<close>

definition Core_Sync :: "'e option \<Rightarrow> Core \<Rightarrow> 'e option" where
  "Core_Sync stdoutSync c = (case out c of Lock_Stdout \<Rightarrow> stdoutSync | AddSync a \<Rightarrow> None)"

definition Logger_Sync :: "'e option \<Rightarrow> Logger \<Rightarrow> 'e list" where
  "Logger_Sync stdoutSync log = List.map_filter (Core_Sync stdoutSync) (core log)"

section \<open>The logger package (internal/middleware/global\_error.go)\<close>

record Config =
  Development :: bool
  Level :: string
  Encoding :: string
  OutputPaths :: "string list"
  ErrorOutputPaths :: "string list"
  DisableCaller :: bool
  DisableStacktrace :: bool
  MaxSizeMB :: int
  MaxBackups :: int
  MaxAgeDays :: int
  Compress :: bool

text \<open>
  The package variables \<open>globalLogger\<close> and \<open>sugaredLogger\<close> (\<open>None\<close> is the nil
  pointer, their value at program start) and the store of lumberjack instances.
\<close>

record Memory =
  globalLogger :: "Logger option"
  sugaredLogger :: "Logger option"
  heap :: "Lumberjack list"

definition startMemory :: Memory where
  "startMemory = \<lparr>globalLogger = None, sugaredLogger = None, heap = []\<rparr>"

datatype error = UnrecognizedLevel string | SyncFailed string

text \<open>
  The loop of \<open>Init\<close> over \<open>config.OutputPaths\<close>: the entries stdout and stderr are
  skipped; every other entry allocates a lumberjack instance and appends a JSON core on it.
\<close>

fun addFileCores ::
  "Config \<Rightarrow> EncoderConfig \<Rightarrow> Level \<Rightarrow> string list \<Rightarrow> Core list \<times> Lumberjack list
     \<Rightarrow> Core list \<times> Lumberjack list" where
  "addFileCores config encoderConfig level [] (cores, h) = (cores, h)"
| "addFileCores config encoderConfig level (path # paths) (cores, h) =
     (if path = ''stdout'' \<or> path = ''stderr''
      then addFileCores config encoderConfig level paths (cores, h)
      else
        (let fileEncoder = NewJSONEncoder encoderConfig;
             (a, h') = alloc h
               \<lparr>Filename = path, MaxSize = MaxSizeMB config, lj_MaxBackups = MaxBackups config,
                MaxAge = MaxAgeDays config, lj_Compress = Compress config\<rparr>;
             fileWriter = AddSync a
         in addFileCores config encoderConfig level paths
              (cores @ [\<lparr>enc = fileEncoder, out = fileWriter, enab = level\<rparr>], h')))"

definition baseEncoderConfig :: EncoderConfig where
  "baseEncoderConfig =
     \<lparr>TimeKey = ''ts'', LevelKey = ''level'', NameKey = ''logger'', CallerKey = ''caller'',
      FunctionKey = OmitKey, MessageKey = ''msg'', StacktraceKey = ''stacktrace'',
      LineEnding = DefaultLineEnding, EncodeLevel = LowercaseLevelEncoder,
      EncodeTime = ISO8601TimeEncoder, EncodeDuration = StringDurationEncoder,
      EncodeCaller = ShortCallerEncoder\<rparr>"

definition encoderConfigOf :: "Config \<Rightarrow> EncoderConfig" where
  "encoderConfigOf config =
     (if Development config
      then baseEncoderConfig\<lparr>EncodeLevel := LowercaseColorLevelEncoder\<rparr>
      else baseEncoderConfig)"

definition consoleCores :: "Config \<Rightarrow> EncoderConfig \<Rightarrow> Level \<Rightarrow> Core list" where
  "consoleCores config encoderConfig level =
     (if Development config
      then [] @ [\<lparr>enc = NewConsoleEncoder encoderConfig, out = Lock_Stdout, enab = level\<rparr>]
      else [])"

definition optsOf :: "Config \<Rightarrow> Option list" where
  "optsOf config =
     [AddCaller, AddCallerSkip 1]
     @ (if \<not> DisableStacktrace config then [AddStacktrace ErrorLevel] else [])
     @ (if DisableCaller config then [WithCaller False] else [])"

text \<open>
  \<open>Init\<close>. The first argument is the level parser (zapcore.Level.UnmarshalText). The result
  is the returned error (\<open>None\<close> is nil) and the memory after the call.
\<close>

definition Init :: "(string \<Rightarrow> Level option) \<Rightarrow> Config \<Rightarrow> Memory \<Rightarrow> error option \<times> Memory" where
  "Init unmarshalText config m =
     (case unmarshalText (Level config) of
        None \<Rightarrow> (Some (UnrecognizedLevel (Level config)), m)
      | Some level \<Rightarrow>
          (let encoderConfig = encoderConfigOf config;
               cores0 = consoleCores config encoderConfig level;
               (cores, h') = addFileCores config encoderConfig level (OutputPaths config) (cores0, heap m);
               c = NewTee cores;
               opts = optsOf config;
               log = zap_New c opts
           in (None, m\<lparr>globalLogger := Some log, sugaredLogger := Some (Sugar_of log), heap := h'\<rparr>)))"

text \<open>
  \<open>Sync\<close>, the accessors and \<open>WithFields\<close>. A method of zap.Logger called on the nil
  pointer faults as soon as it reads the logger.
\<close>

definition Sync :: "'e option \<Rightarrow> Memory \<Rightarrow> fault + 'e list" where
  "Sync stdoutSync m =
     (case globalLogger m of
        None \<Rightarrow> Inl NilDereference
      | Some log \<Rightarrow> Inr (Logger_Sync stdoutSync log))"

definition Logger_of :: "Memory \<Rightarrow> Logger option" where
  "Logger_of m = globalLogger m"

definition Sugar :: "Memory \<Rightarrow> Logger option" where
  "Sugar m = sugaredLogger m"

definition WithFields :: "Memory \<Rightarrow> Field list \<Rightarrow> fault + Logger option" where
  "WithFields m fs = Logger_With (globalLogger m) fs"

text \<open>
  The leveled helpers. Each returns how the call ended (\<open>None\<close>: it returned) and the
  writes it made.
\<close>

definition Debug :: "Memory \<Rightarrow> string \<Rightarrow> Field list \<Rightarrow> fault option \<times> Write list" where
  "Debug m msg fs =
     (case globalLogger m of
        None \<Rightarrow> (Some NilDereference, [])
      | Some log \<Rightarrow> Logger_log log DebugLevel msg fs)"

definition Info :: "Memory \<Rightarrow> string \<Rightarrow> Field list \<Rightarrow> fault option \<times> Write list" where
  "Info m msg fs =
     (case globalLogger m of
        None \<Rightarrow> (Some NilDereference, [])
      | Some log \<Rightarrow> Logger_log log InfoLevel msg fs)"

definition Warn :: "Memory \<Rightarrow> string \<Rightarrow> Field list \<Rightarrow> fault option \<times> Write list" where
  "Warn m msg fs =
     (case globalLogger m of
        None \<Rightarrow> (Some NilDereference, [])
      | Some log \<Rightarrow> Logger_log log WarnLevel msg fs)"

definition Error :: "Memory \<Rightarrow> string \<Rightarrow> Field list \<Rightarrow> fault option \<times> Write list" where
  "Error m msg fs =
     (case globalLogger m of
        None \<Rightarrow> (Some NilDereference, [])
      | Some log \<Rightarrow> Logger_log log ErrorLevel msg fs)"

definition Fatal :: "Memory \<Rightarrow> string \<Rightarrow> Field list \<Rightarrow> fault option \<times> Write list" where
  "Fatal m msg fs =
     (case globalLogger m of
        None \<Rightarrow> (Some NilDereference, [])
      | Some log \<Rightarrow> Logger_log log FatalLevel msg fs)"

definition Panic :: "Memory \<Rightarrow> string \<Rightarrow> Field list \<Rightarrow> fault option \<times> Write list" where
  "Panic m msg fs =
     (case globalLogger m of
        None \<Rightarrow> (Some NilDereference, [])
      | Some log \<Rightarrow> Logger_log log PanicLevel msg fs)"

text \<open>
  strings.TrimSpace on the white space of ASCII, which is what a stack dump of the Go runtime
  begins and ends with.
\<close>

definition isSpace :: "char \<Rightarrow> bool" where
  "isSpace c = (c \<in> set [CHR 0x09, CHR 0x0A, CHR 0x0B, CHR 0x0C, CHR 0x0D, CHR 0x20])"

definition TrimSpace :: "string \<Rightarrow> string" where
  "TrimSpace s = rev (dropWhile isSpace (rev (dropWhile isSpace s)))"

text \<open>
  \<open>ErrorWithStack\<close>. \<open>trace\<close> is the stack dump of the calling goroutine, of which
  runtime.Stack copies at most 4096 bytes; \<open>err\<close> is the error value (\<open>None\<close> is the nil
  error, on which \<open>err.Error()\<close> faults before the logger is reached).
\<close>

definition ErrorWithStack ::
  "Memory \<Rightarrow> string \<Rightarrow> string option \<Rightarrow> Field list \<Rightarrow> fault option \<times> Write list" where
  "ErrorWithStack m trace err fs =
     (let stack = take 4096 trace;
          stackTrace = TrimSpace stack;
          fs' = fs @ [ZString ''stack'' stackTrace]
      in (case err of
            None \<Rightarrow> (Some NilDereference, [])
          | Some text \<Rightarrow>
              (case globalLogger m of
                 None \<Rightarrow> (Some NilDereference, [])
               | Some log \<Rightarrow> Logger_log log ErrorLevel text fs')))"

section \<open>The request middleware (internal/middleware/logger.go)\<close>

subsection \<open>The request context\<close>

text \<open>
  Header names are canonicalised by net/http on every Get and Set: the first letter and
  every letter after a hyphen in upper case, the rest in lower case; a name with a byte that
  is not a token character is left as it is.
\<close>

definition validHeaderFieldByte :: "char \<Rightarrow> bool" where
  "validHeaderFieldByte c =
     (let n = (of_char c :: nat)
      in (48 \<le> n \<and> n \<le> 57) \<or> (65 \<le> n \<and> n \<le> 90) \<or> (97 \<le> n \<and> n \<le> 122)
         \<or> n \<in> set [33, 35, 36, 37, 38, 39, 42, 43, 45, 46, 94, 95, 96, 124, 126])"

definition toUpper :: "char \<Rightarrow> char" where
  "toUpper c = (let n = (of_char c :: nat) in if 97 \<le> n \<and> n \<le> 122 then char_of (n - 32) else c)"

definition toLower :: "char \<Rightarrow> char" where
  "toLower c = (let n = (of_char c :: nat) in if 65 \<le> n \<and> n \<le> 90 then char_of (n + 32) else c)"

fun canonical :: "bool \<Rightarrow> string \<Rightarrow> string" where
  "canonical upper [] = []"
| "canonical upper (c # cs) =
     (if upper then toUpper c else toLower c) # canonical (c = CHR ''-'') cs"

definition CanonicalMIMEHeaderKey :: "string \<Rightarrow> string" where
  "CanonicalMIMEHeaderKey s = (if list_all validHeaderFieldByte s then canonical True s else s)"

type_synonym Header = "string \<rightharpoonup> string list"

definition Header_Get :: "Header \<Rightarrow> string \<Rightarrow> string" where
  "Header_Get h key =
     (case h (CanonicalMIMEHeaderKey key) of
        None \<Rightarrow> ''''
      | Some [] \<Rightarrow> ''''
      | Some (v # vs) \<Rightarrow> v)"

definition Header_Set :: "Header \<Rightarrow> string \<Rightarrow> string \<Rightarrow> Header" where
  "Header_Set h key v = h(CanonicalMIMEHeaderKey key \<mapsto> [v])"

text \<open>A value stored in the context's key map: a string or a value of another type.\<close>

datatype any = AnyString string | AnyOther

record Request =
  Method :: string
  URL_Path :: string
  URL_RawQuery :: string
  Header :: Header

text \<open>
  The part of gin.Context the middleware touches. \<open>ClientIP\<close> is what c.ClientIP() returns
  for the request; \<open>Errors\<close> holds the texts of the errors appended by the handlers, which
  is what c.Errors.Errors() returns.
\<close>

record Context =
  Request :: Request
  Keys :: "string \<rightharpoonup> any"
  Errors :: "string list"
  Writer_Status :: int
  Writer_Header :: Header
  ClientIP :: string

definition GetHeader :: "Context \<Rightarrow> string \<Rightarrow> string" where
  "GetHeader c key = Header_Get (Header (Request c)) key"

definition UserAgent :: "Request \<Rightarrow> string" where
  "UserAgent r = Header_Get (Header r) ''User-Agent''"

definition Set :: "Context \<Rightarrow> string \<Rightarrow> any \<Rightarrow> Context" where
  "Set c key v = c\<lparr>Keys := (Keys c)(key \<mapsto> v)\<rparr>"

definition GetString :: "Context \<Rightarrow> string \<Rightarrow> string" where
  "GetString c key = (case Keys c key of Some (AnyString s) \<Rightarrow> s | _ \<Rightarrow> '''')"

subsection \<open>Time\<close>

text \<open>
  Instants and durations in nanoseconds. time.Time.Sub saturates at the bounds of a
  Duration (a signed 64-bit count).
\<close>

definition maxDuration :: int where
  "maxDuration = 2 ^ 63 - 1"

definition minDuration :: int where
  "minDuration = - (2 ^ 63)"

definition Time_Sub :: "int \<Rightarrow> int \<Rightarrow> int" where
  "Time_Sub t u =
     (let d = t - u
      in if d > maxDuration then maxDuration else if d < minDuration then minDuration else d)"

subsection \<open>Request identifiers\<close>

text \<open>
  uuid.New().String(): sixteen random bytes (\<open>rnd\<close> is the stream of the random source),
  with the version and variant bits set, written as hexadecimal digits in five groups.
\<close>

definition hexdigit :: "nat \<Rightarrow> char" where
  "hexdigit n = ''0123456789abcdef'' ! n"

definition hexByte :: "8 word \<Rightarrow> string" where
  "hexByte b = [hexdigit (unat (drop_bit 4 b)), hexdigit (unat (b AND 0x0F))]"

definition encodeHex :: "8 word list \<Rightarrow> string" where
  "encodeHex bs = concat (map hexByte bs)"

definition NewRandom :: "(nat \<Rightarrow> 8 word) \<Rightarrow> 8 word list" where
  "NewRandom rnd =
     (let u = map rnd [0..<16];
          u = u[6 := (u ! 6 AND 0x0F) OR 0x40];
          u = u[8 := (u ! 8 AND 0x3F) OR 0x80]
      in u)"

definition UUID_String :: "8 word list \<Rightarrow> string" where
  "UUID_String u =
     encodeHex (take 4 u) @ ''-'' @ encodeHex (take 2 (drop 4 u)) @ ''-''
     @ encodeHex (take 2 (drop 6 u)) @ ''-'' @ encodeHex (take 2 (drop 8 u)) @ ''-''
     @ encodeHex (drop 10 u)"

definition generateRequestID :: "(nat \<Rightarrow> 8 word) \<Rightarrow> string" where
  "generateRequestID rnd = UUID_String (NewRandom rnd)"

subsection \<open>The two middleware functions\<close>

text \<open>
  \<open>RequestIDMiddleware\<close>. \<open>next\<close> is the rest of the handler chain (c.Next()), run on the
  context as the middleware leaves it.
\<close>

definition RequestIDMiddleware :: "(nat \<Rightarrow> 8 word) \<Rightarrow> (Context \<Rightarrow> 'r) \<Rightarrow> Context \<Rightarrow> 'r" where
  "RequestIDMiddleware rnd next c =
     (let requestID = GetHeader c ''X-Request-ID'';
          requestID = (if requestID = '''' then generateRequestID rnd else requestID);
          c = Set c ''requestId'' (AnyString requestID);
          c = c\<lparr>Writer_Header := Header_Set (Writer_Header c) ''X-Request-ID'' requestID\<rparr>
      in next c)"

text \<open>
  The loop of \<open>GinZap\<close> over the error texts: one call of logger.Error per text, with no
  fields. A call that does not return ends the loop.
\<close>

fun logErrors :: "Memory \<Rightarrow> string list \<Rightarrow> fault option \<times> Write list" where
  "logErrors m [] = (None, [])"
| "logErrors m (e # es) =
     (case Error m e [] of
        (Some f, ws) \<Rightarrow> (Some f, ws)
      | (None, ws) \<Rightarrow> (case logErrors m es of (r, ws') \<Rightarrow> (r, ws @ ws')))"

text \<open>
  \<open>GinZap\<close>. \<open>start\<close> and \<open>finish\<close> are the two readings of time.Now(), \<open>next\<close> is the
  rest of the chain. The file imports logger.Error and logger.Info from go-api/pkg/logger;
  the package functions of these names are \<open>Error\<close> and \<open>Info\<close> of global\_error.go above.
  The result is how the logging ended, the writes made, and the context after the request.
\<close>

definition GinZap ::
  "Memory \<Rightarrow> int \<Rightarrow> int \<Rightarrow> (Context \<Rightarrow> Context) \<Rightarrow> Context
     \<Rightarrow> (fault option \<times> Write list) \<times> Context" where
  "GinZap m start finish next c0 =
     (let path = URL_Path (Request c0);
          query = URL_RawQuery (Request c0);
          c = next c0;
          latency = Time_Sub finish start
      in if length (Errors c) > 0
         then (logErrors m (Errors c), c)
         else (Info m path
                 [ZInt ''status'' (Writer_Status c),
                  ZString ''method'' (Method (Request c)),
                  ZString ''path'' path,
                  ZString ''query'' query,
                  ZString ''ip'' (ClientIP c),
                  ZString ''user-agent'' (UserAgent (Request c)),
                  ZDuration ''latency'' latency,
                  ZString ''request-id'' (GetString c ''requestId'')], c))"

section \<open>Example configurations\<close>

definition devConfig :: Config where
  "devConfig =
     \<lparr>Development = True, Level = ''debug'', Encoding = ''console'',
      OutputPaths = [''stdout'', ''logs/app.log''], ErrorOutputPaths = [''stderr''],
      DisableCaller = False, DisableStacktrace = False,
      MaxSizeMB = 100, MaxBackups = 3, MaxAgeDays = 28, Compress = True\<rparr>"

definition auditConfig :: Config where
  "auditConfig =
     \<lparr>Development = False, Level = ''warn'', Encoding = ''json'',
      OutputPaths = [''logs/app.log'', ''stderr'', ''logs/audit.log''], ErrorOutputPaths = [],
      DisableCaller = True, DisableStacktrace = False,
      MaxSizeMB = 50, MaxBackups = 7, MaxAgeDays = 14, Compress = False\<rparr>"

definition prodConfig :: Config where
  "prodConfig =
     \<lparr>Development = False, Level = ''info'', Encoding = ''json'',
      OutputPaths = [''stdout''], ErrorOutputPaths = [''stderr''],
      DisableCaller = False, DisableStacktrace = False,
      MaxSizeMB = 100, MaxBackups = 3, MaxAgeDays = 28, Compress = True\<rparr>"

text \<open>The memory after \<open>Init\<close> with the development configuration at program start.\<close>

definition devMemory :: Memory where
  "devMemory = snd (Init UnmarshalText devConfig startMemory)"

text \<open>A request and a handler for the examples: the handler of the route /health.\<close>

definition healthRequest :: Request where
  "healthRequest =
     \<lparr>Method = ''GET'', URL_Path = ''/health'', URL_RawQuery = '''',
      Header = [''X-Request-Id'' \<mapsto> [''abc''], ''User-Agent'' \<mapsto> [''curl/8.5.0'']]\<rparr>"

definition healthContext :: Context where
  "healthContext =
     \<lparr>Request = healthRequest, Keys = Map.empty, Errors = [], Writer_Status = 200,
      Writer_Header = Map.empty, ClientIP = ''10.0.0.7''\<rparr>"

definition healthHandler :: "Context \<Rightarrow> Context" where
  "healthHandler c =
     c\<lparr>Writer_Status := 200,
       Writer_Header := Header_Set (Writer_Header c) ''Content-Type'' ''application/json; charset=utf-8''\<rparr>"

text \<open>The same request without the correlation header, and a fixed random stream.\<close>

definition anonContext :: Context where
  "anonContext = healthContext\<lparr>Request := healthRequest\<lparr>Header := Map.empty\<rparr>\<rparr>"

definition exampleRandom :: "nat \<Rightarrow> 8 word" where
  "exampleRandom i = of_nat i"

definition failingHandler :: "Context \<Rightarrow> Context" where
  "failingHandler c = c\<lparr>Writer_Status := 500, Errors := Errors c @ [''boom'']\<rparr>"

section \<open>Notions used in the statements\<close>

text \<open>The output paths that name a file, and the rotation policy \<open>Init\<close> builds for one.\<close>

definition fileTargets :: "string list \<Rightarrow> string list" where
  "fileTargets paths = filter (\<lambda>p. p \<noteq> ''stdout'' \<and> p \<noteq> ''stderr'') paths"

definition rotationPolicy :: "Config \<Rightarrow> string \<Rightarrow> Lumberjack" where
  "rotationPolicy config path =
     \<lparr>Filename = path, MaxSize = MaxSizeMB config, lj_MaxBackups = MaxBackups config,
      MaxAge = MaxAgeDays config, lj_Compress = Compress config\<rparr>"

definition fileCoreAt :: "EncoderConfig \<Rightarrow> Level \<Rightarrow> addr \<Rightarrow> Core" where
  "fileCoreAt ec level a = \<lparr>enc = NewJSONEncoder ec, out = AddSync a, enab = level\<rparr>"

text \<open>
  The logger a successful \<open>Init\<close> installs, given the parsed level and the number of
  lumberjack instances allocated before the call.
\<close>

definition installed :: "Config \<Rightarrow> Level \<Rightarrow> nat \<Rightarrow> Logger" where
  "installed config level n =
     zap_New (consoleCores config (encoderConfigOf config) level
                @ map (fileCoreAt (encoderConfigOf config) level)
                    [n ..< n + length (fileTargets (OutputPaths config))])
             (optsOf config)"

text \<open>The sinks of a logger that are files, in the order of its cores.\<close>

fun fileAddrs :: "Core list \<Rightarrow> addr list" where
  "fileAddrs [] = []"
| "fileAddrs (c # cs) = (case out c of Lock_Stdout \<Rightarrow> fileAddrs cs | AddSync a \<Rightarrow> a # fileAddrs cs)"

text \<open>The addresses of the rotation policies that the installed logger writes to.\<close>

definition fileSinks :: "Memory \<Rightarrow> addr list option" where
  "fileSinks m = map_option (\<lambda>log. fileAddrs (core log)) (globalLogger m)"

text \<open>The writes of a list that went to a given sink.\<close>

definition writesTo :: "WriteSyncer \<Rightarrow> Write list \<Rightarrow> Write list" where
  "writesTo s ws = filter (\<lambda>w. w_sink w = s) ws"

text \<open>
  The record of a file sink as section 6 of the spec describes it, with the level written
  by the level encoder that \<open>Init\<close> selects: the keys level and ts, logger when the logger
  has a name, caller unless disabled, msg, the structured fields, and stacktrace from
  error level on unless disabled.
\<close>

fun specField :: "Field \<Rightarrow> string \<times> JValue" where
  "specField (ZInt k v) = (k, JInt v)"
| "specField (ZString k v) = (k, JString v)"
| "specField (ZDuration k v) = (k, JDuration StringDurationEncoder v)"

definition specFileRecord ::
  "Config \<Rightarrow> string \<Rightarrow> Field list \<Rightarrow> Level \<Rightarrow> string \<Rightarrow> Field list \<Rightarrow> (string \<times> JValue) list" where
  "specFileRecord config nm ctx lvl msg fs =
     [(''level'', JString (if Development config
                          then [CHR 0x1B, CHR ''[''] @ levelColor lvl @ ''m'' @ Level_String lvl
                               @ [CHR 0x1B, CHR ''['', CHR ''0'', CHR ''m'']
                          else Level_String lvl)),
      (''ts'', JTime ISO8601TimeEncoder)]
     @ (if nm = [] then [] else [(''logger'', JString nm)])
     @ (if DisableCaller config then [] else [(''caller'', JCaller ShortCallerEncoder)])
     @ [(''msg'', JString msg)]
     @ map specField (ctx @ fs)
     @ (if DisableStacktrace config then []
        else if level_num ErrorLevel \<le> level_num lvl then [(''stacktrace'', JStack)] else [])"

text \<open>
  The sinks of the installed logger, and whether the level of a configuration admits a
  severity.
\<close>

definition sinks :: "Memory \<Rightarrow> WriteSyncer list" where
  "sinks m = (case globalLogger m of None \<Rightarrow> [] | Some log \<Rightarrow> map out (core log))"

definition admits :: "(string \<Rightarrow> Level option) \<Rightarrow> Config \<Rightarrow> Level \<Rightarrow> bool" where
  "admits unmarshalText config lvl =
     (case unmarshalText (Level config) of None \<Rightarrow> False | Some level \<Rightarrow> Enabled level lvl)"

text \<open>The messages of a list of writes, in order.\<close>

definition messages :: "Write list \<Rightarrow> string list" where
  "messages ws = map (\<lambda>w. ent_Message (w_entry w)) ws"

text \<open>
  The context that the correlation middleware hands to the rest of the chain: the identifier
  under the key requestId and in the response header X-Request-ID.
\<close>

definition withRequestID :: "string \<Rightarrow> Context \<Rightarrow> Context" where
  "withRequestID rid c =
     c\<lparr>Keys := (Keys c)(''requestId'' \<mapsto> AnyString rid),
       Writer_Header := (Writer_Header c)(''X-Request-Id'' \<mapsto> [rid])\<rparr>"

text \<open>The resolved identifier of a request: the inbound header, or a generated one.\<close>

definition resolvedID :: "(nat \<Rightarrow> 8 word) \<Rightarrow> Context \<Rightarrow> string" where
  "resolvedID rnd c =
     (if GetHeader c ''X-Request-ID'' = '''' then generateRequestID rnd else GetHeader c ''X-Request-ID'')"

text \<open>The fields of the completion record of a request.\<close>

definition completionFields :: "Context \<Rightarrow> Context \<Rightarrow> int \<Rightarrow> Field list" where
  "completionFields c0 c latency =
     [ZInt ''status'' (Writer_Status c),
      ZString ''method'' (Method (Request c)),
      ZString ''path'' (URL_Path (Request c0)),
      ZString ''query'' (URL_RawQuery (Request c0)),
      ZString ''ip'' (ClientIP c),
      ZString ''user-agent'' (UserAgent (Request c)),
      ZDuration ''latency'' latency,
      ZString ''request-id'' (GetString c ''requestId'')]"

section \<open>What a successful initialisation builds\<close>

lemma Init_fails_unchanged:
  "unmarshalText (Level config) = None \<Longrightarrow>
     Init unmarshalText config m = (Some (UnrecognizedLevel (Level config)), m)"
  by (simp add: Init_def)

lemma Init_ok_fst:
  "unmarshalText (Level config) = Some level \<Longrightarrow> fst (Init unmarshalText config m) = None"
  by (simp add: Init_def Let_def split: prod.splits)

lemma upt_add_Suc: "[n ..< n + Suc k] = n # [Suc n ..< Suc n + k]"
  by (subst upt_rec) simp

lemma addFileCores_result:
  "addFileCores config ec level paths (cores, h) =
     (cores @ map (fileCoreAt ec level) [length h ..< length h + length (fileTargets paths)],
      h @ map (rotationPolicy config) (fileTargets paths))"
proof (induction paths arbitrary: cores h)
  case Nil
  then show ?case by (simp add: fileTargets_def)
next
  case (Cons path paths)
  show ?case
  proof (cases "path = ''stdout'' \<or> path = ''stderr''")
    case True
    then have "fileTargets (path # paths) = fileTargets paths"
      by (auto simp: fileTargets_def)
    with True Cons.IH [of cores h] show ?thesis by simp
  next
    case False
    then have ft: "fileTargets (path # paths) = path # fileTargets paths"
      by (auto simp: fileTargets_def)
    have up: "[length h ..< length h + length (path # fileTargets paths)]
                = length h # [Suc (length h) ..< Suc (length h) + length (fileTargets paths)]"
      using upt_add_Suc [of "length h" "length (fileTargets paths)"] by simp
    have step: "addFileCores config ec level (path # paths) (cores, h) =
          addFileCores config ec level paths
            (cores @ [fileCoreAt ec level (length h)], h @ [rotationPolicy config path])"
      using False by (simp add: alloc_def fileCoreAt_def rotationPolicy_def)
    show ?thesis
      unfolding step Cons.IH ft up by simp
  qed
qed

lemma Init_ok:
  "unmarshalText (Level config) = Some level \<Longrightarrow>
     Init unmarshalText config m =
       (None, m\<lparr>globalLogger := Some (installed config level (length (heap m))),
                sugaredLogger := Some (Sugar_of (installed config level (length (heap m)))),
                heap := heap m @ map (rotationPolicy config) (fileTargets (OutputPaths config))\<rparr>)"
  by (simp add: Init_def Let_def addFileCores_result installed_def NewTee_def)

lemma installed_sel:
  "core (installed config level n) =
     consoleCores config (encoderConfigOf config) level
     @ map (fileCoreAt (encoderConfigOf config) level) [n ..< n + length (fileTargets (OutputPaths config))]"
  "addCaller (installed config level n) = (\<not> DisableCaller config)"
  "addStack (installed config level n) = (if DisableStacktrace config then None else Some ErrorLevel)"
  "name (installed config level n) = []"
  "withFields (installed config level n) = []"
  by (simp_all add: installed_def zap_New_def optsOf_def)

lemma addFileCores_ignores:
  "addFileCores (config\<lparr>Encoding := e, ErrorOutputPaths := ps\<rparr>) ec level paths acc
     = addFileCores config ec level paths acc"
  by (induction config ec level paths acc rule: addFileCores.induct) (simp_all add: Let_def alloc_def)

lemma Logger_log_fst:
  "fst (Logger_log log lvl msg fs) =
     (case lvl of PanicLevel \<Rightarrow> Some (Panicked msg) | FatalLevel \<Rightarrow> Some Exited | _ \<Rightarrow> None)"
  by (simp add: Logger_log_def Let_def)

lemma fileAddrs_append: "fileAddrs (xs @ ys) = fileAddrs xs @ fileAddrs ys"
  by (induction xs) (simp_all split: WriteSyncer.splits)

lemma fileAddrs_consoleCores: "fileAddrs (consoleCores config ec level) = []"
  by (simp add: consoleCores_def)

lemma fileAddrs_fileCores: "fileAddrs (map (fileCoreAt ec level) as) = as"
  by (induction as) (simp_all add: fileCoreAt_def)

lemma fileAddrs_installed:
  "fileAddrs (core (installed config level n)) = [n ..< n + length (fileTargets (OutputPaths config))]"
  by (simp add: installed_sel fileAddrs_append fileAddrs_consoleCores fileAddrs_fileCores)

lemma Init_accepts:
  assumes "fst (Init unmarshalText config m) = None"
  obtains level where "unmarshalText (Level config) = Some level"
  using assms by (cases "unmarshalText (Level config)") (simp_all add: Init_fails_unchanged)

subsection \<open>Writes of the installed logger\<close>

lemma Error_Some:
  "globalLogger m = Some log \<Longrightarrow> Error m e fs = (None, snd (Logger_log log ErrorLevel e fs))"
  by (simp add: Error_def prod_eq_iff Logger_log_fst)

lemma Info_Some:
  "globalLogger m = Some log \<Longrightarrow> Info m e fs = (None, snd (Logger_log log InfoLevel e fs))"
  by (simp add: Info_def prod_eq_iff Logger_log_fst)

lemma logErrors_Some:
  "globalLogger m = Some log \<Longrightarrow>
     logErrors m es = (None, concat (map (\<lambda>e. snd (Logger_log log ErrorLevel e [])) es))"
  by (induction es) (simp_all add: Error_Some)

lemma Logger_log_writes:
  "w \<in> set (snd (Logger_log log lvl msg fs)) \<Longrightarrow>
     ent_Level (w_entry w) = lvl \<and> ent_Message (w_entry w) = msg \<and> w_fields w = fs"
  by (auto simp: Logger_log_def Let_def Core_Write_def)

lemma messages_writesTo_Logger_log:
  "messages (writesTo s (snd (Logger_log log lvl msg fs)))
     = replicate (length (filter (\<lambda>c. out c = s) (filter (\<lambda>c. Enabled (enab c) lvl) (core log)))) msg"
proof -
  have "messages (writesTo s (map (Core_Write ctx ent fs) cs))
          = replicate (length (filter (\<lambda>c. out c = s) cs)) (ent_Message ent)" for ctx ent cs
    by (induction cs) (simp_all add: messages_def writesTo_def Core_Write_def)
  then show ?thesis by (simp add: Logger_log_def Let_def)
qed

lemma filter_distinct_one:
  "distinct (map f xs) \<Longrightarrow> s \<in> set (map f xs) \<Longrightarrow> length (filter (\<lambda>c. f c = s) xs) = 1"
proof (induction xs)
  case Nil
  then show ?case by simp
next
  case (Cons x xs)
  show ?case
  proof (cases "f x = s")
    case True
    from Cons.prems(1) have "f x \<notin> f ` set xs" by simp
    with True have "\<forall>c \<in> set xs. f c \<noteq> s" by blast
    then have "filter (\<lambda>c. f c = s) xs = []"
      by (simp add: filter_empty_conv)
    with True show ?thesis by simp
  next
    case False
    with Cons show ?thesis by auto
  qed
qed

lemma installed_enab: "c \<in> set (core (installed config level n)) \<Longrightarrow> enab c = level"
  by (auto simp: installed_sel consoleCores_def fileCoreAt_def split: if_splits)

lemma installed_outs:
  "map out (core (installed config level n)) =
     (if Development config then [Lock_Stdout] else [])
     @ map AddSync [n ..< n + length (fileTargets (OutputPaths config))]"
  by (simp add: installed_sel consoleCores_def fileCoreAt_def comp_def)

lemma installed_distinct: "distinct (map out (core (installed config level n)))"
  unfolding installed_outs by (auto simp: distinct_map inj_on_def)

lemma installed_one_write:
  assumes "Enabled level lvl" and "s \<in> set (map out (core (installed config level n)))"
  shows "messages (writesTo s (snd (Logger_log (installed config level n) lvl msg fs))) = [msg]"
proof -
  have "filter (\<lambda>c. Enabled (enab c) lvl) (core (installed config level n)) = core (installed config level n)"
    using assms(1) by (simp add: filter_id_conv installed_enab)
  moreover have "length (filter (\<lambda>c. out c = s) (core (installed config level n))) = 1"
    using installed_distinct assms(2) by (rule filter_distinct_one)
  ultimately show ?thesis by (simp add: messages_writesTo_Logger_log)
qed

lemma installed_no_write:
  assumes "\<not> Enabled level lvl"
  shows "snd (Logger_log (installed config level n) lvl msg fs) = []"
proof -
  have "filter (\<lambda>c. Enabled (enab c) lvl) (core (installed config level n)) = []"
    using assms by (simp add: filter_empty_conv installed_enab)
  then show ?thesis by (simp add: Logger_log_def Let_def)
qed

lemma Init_None_cases:
  assumes "Init unmarshalText config m0 = (None, m)"
  obtains level where "unmarshalText (Level config) = Some level"
    and "globalLogger m = Some (installed config level (length (heap m0)))"
proof -
  from assms have "fst (Init unmarshalText config m0) = None" by simp
  then obtain level where lv: "unmarshalText (Level config) = Some level"
    by (rule Init_accepts)
  with assms have "globalLogger m = Some (installed config level (length (heap m0)))"
    by (auto simp: Init_ok)
  with lv that show ?thesis by blast
qed

lemma messages_concat_single:
  "(\<And>e. messages (writesTo s (f e)) = [e]) \<Longrightarrow> messages (writesTo s (concat (map f es))) = es"
  by (induction es) (simp_all add: messages_def writesTo_def)

subsection \<open>The example configurations\<close>

lemma dev_level: "UnmarshalText (Level devConfig) = Some DebugLevel"
  by (simp add: devConfig_def UnmarshalText_def)

lemma prod_level: "UnmarshalText (Level prodConfig) = Some InfoLevel"
  by (simp add: prodConfig_def UnmarshalText_def)

lemma bad_level: "UnmarshalText (Level (devConfig\<lparr>Level := ''verbose''\<rparr>)) = None"
  by (simp add: UnmarshalText_def)

lemma dev_sel:
  "Development devConfig = True"
  "fileTargets (OutputPaths devConfig) = [''logs/app.log'']"
  "DisableCaller devConfig = False"
  "DisableStacktrace devConfig = False"
  by (simp_all add: devConfig_def fileTargets_def)

lemma prod_sel:
  "Development prodConfig = False"
  "fileTargets (OutputPaths prodConfig) = []"
  "DisableCaller prodConfig = False"
  "DisableStacktrace prodConfig = False"
  by (simp_all add: prodConfig_def fileTargets_def)

lemma prod_paths: "OutputPaths prodConfig = [''stdout'']"
  by (simp add: prodConfig_def)

lemma dev_Init:
  "Init UnmarshalText devConfig startMemory =
     (None, \<lparr>globalLogger = Some (installed devConfig DebugLevel 0),
             sugaredLogger = Some (Sugar_of (installed devConfig DebugLevel 0)),
             heap = [rotationPolicy devConfig ''logs/app.log'']\<rparr>)"
  by (simp add: Init_ok [where unmarshalText = UnmarshalText and config = devConfig, OF dev_level]
        startMemory_def dev_sel)

lemma prod_Init:
  "Init UnmarshalText prodConfig startMemory =
     (None, \<lparr>globalLogger = Some (installed prodConfig InfoLevel 0),
             sugaredLogger = Some (Sugar_of (installed prodConfig InfoLevel 0)),
             heap = []\<rparr>)"
  by (simp add: Init_ok [where unmarshalText = UnmarshalText and config = prodConfig, OF prod_level]
        startMemory_def prod_sel)

lemma dev_cores:
  "core (installed devConfig DebugLevel 0) =
     [\<lparr>enc = NewConsoleEncoder (encoderConfigOf devConfig), out = Lock_Stdout, enab = DebugLevel\<rparr>,
      \<lparr>enc = NewJSONEncoder (encoderConfigOf devConfig), out = AddSync 0, enab = DebugLevel\<rparr>]"
  by (simp add: installed_sel consoleCores_def dev_sel fileCoreAt_def)

lemma prod_cores: "core (installed prodConfig InfoLevel 0) = []"
  by (simp add: installed_sel consoleCores_def prod_sel)

lemma Info_after_dev:
  "map w_sink (snd (Info (snd (Init UnmarshalText devConfig startMemory)) ''still logging'' []))
     = [Lock_Stdout, AddSync 0]"
  by (simp add: dev_Init Info_def Logger_log_def Let_def dev_cores Core_Write_def Enabled_def)

lemma audit_level: "UnmarshalText (Level auditConfig) = Some WarnLevel"
  by (simp add: auditConfig_def UnmarshalText_def)

lemma audit_targets: "fileTargets (OutputPaths auditConfig) = [''logs/app.log'', ''logs/audit.log'']"
  by (simp add: auditConfig_def fileTargets_def)

lemma audit_sel:
  "Development auditConfig = False"
  "DisableCaller auditConfig = True"
  "DisableStacktrace auditConfig = False"
  by (simp_all add: auditConfig_def)

lemma audit_Init:
  "Init UnmarshalText auditConfig startMemory =
     (None, \<lparr>globalLogger = Some (installed auditConfig WarnLevel 0),
             sugaredLogger = Some (Sugar_of (installed auditConfig WarnLevel 0)),
             heap = [rotationPolicy auditConfig ''logs/app.log'',
                     rotationPolicy auditConfig ''logs/audit.log'']\<rparr>)"
  using audit_level by (simp add: Init_ok startMemory_def audit_targets)

lemma audit_cores:
  "core (installed auditConfig WarnLevel 0) =
     [\<lparr>enc = NewJSONEncoder (encoderConfigOf auditConfig), out = AddSync 0, enab = WarnLevel\<rparr>,
      \<lparr>enc = NewJSONEncoder (encoderConfigOf auditConfig), out = AddSync 1, enab = WarnLevel\<rparr>]"
  by (simp add: installed_sel consoleCores_def audit_targets fileCoreAt_def audit_sel)

lemma dev_Init_devMemory: "Init UnmarshalText devConfig startMemory = (None, devMemory)"
  by (simp add: devMemory_def dev_Init)

lemma devMemory_logger: "globalLogger devMemory = Some (installed devConfig DebugLevel 0)"
  by (simp add: devMemory_def dev_Init)

lemma devMemory_sinks: "sinks devMemory = [Lock_Stdout, AddSync 0]"
  by (simp add: sinks_def devMemory_logger dev_cores)

lemma fatal_level: "UnmarshalText (Level (devConfig\<lparr>Level := ''fatal''\<rparr>)) = Some FatalLevel"
  by (simp add: UnmarshalText_def)

subsection \<open>The request-logging middleware\<close>

lemma Time_Sub_mono: "start \<le> finish \<Longrightarrow> 0 \<le> Time_Sub finish start"
  by (simp add: Time_Sub_def Let_def maxDuration_def minDuration_def)

lemma Time_Sub_exact:
  "start \<le> finish \<Longrightarrow> finish - start \<le> maxDuration \<Longrightarrow> Time_Sub finish start = finish - start"
  by (simp add: Time_Sub_def Let_def maxDuration_def minDuration_def)

lemma GinZap_no_errors:
  "Errors (handler c) = [] \<Longrightarrow>
     GinZap m start finish handler c
       = (Info m (URL_Path (Request c)) (completionFields c (handler c) (Time_Sub finish start)), handler c)"
  by (simp add: GinZap_def Let_def completionFields_def)

subsection \<open>The correlation middleware\<close>

lemma canonical_request_id: "CanonicalMIMEHeaderKey ''X-Request-ID'' = ''X-Request-Id''"
  by code_simp

lemma encodeHex_length: "length (encodeHex bs) = 2 * length bs"
  by (induction bs) (simp_all add: encodeHex_def hexByte_def)

lemma NewRandom_length: "length (NewRandom rnd) = 16"
  by (simp add: NewRandom_def Let_def)

lemma generateRequestID_length: "length (generateRequestID rnd) = 36"
  by (simp add: generateRequestID_def UUID_String_def encodeHex_length NewRandom_length)

lemma RequestIDMiddleware_eq:
  "RequestIDMiddleware rnd handler c = handler (withRequestID (resolvedID rnd c) c)"
  by (simp add: RequestIDMiddleware_def Let_def withRequestID_def resolvedID_def Set_def
        Header_Set_def canonical_request_id)

lemma withRequestID_GetString: "GetString (withRequestID rid c) ''requestId'' = rid"
  by (simp add: GetString_def withRequestID_def)

lemma withRequestID_header: "Header_Get (Writer_Header (withRequestID rid c)) ''X-Request-ID'' = rid"
  by (simp add: Header_Get_def withRequestID_def canonical_request_id)

lemma completion_record_of_chain:
  assumes a: "Init unmarshalText config m0 = (None, m)
        \<and> Errors (route (withRequestID (resolvedID rnd c) c)) = []
        \<and> GetString (route (withRequestID (resolvedID rnd c) c)) ''requestId''
            = GetString (withRequestID (resolvedID rnd c) c) ''requestId''
        \<and> Header_Get (Writer_Header (route (withRequestID (resolvedID rnd c) c))) ''X-Request-ID''
            = Header_Get (Writer_Header (withRequestID (resolvedID rnd c) c)) ''X-Request-ID''"
    and w: "w \<in> set (snd (fst (RequestIDMiddleware rnd (GinZap m start finish route) c)))"
  shows "ent_Level (w_entry w) = InfoLevel
     \<and> ZString ''request-id'' (resolvedID rnd c) \<in> set (w_fields w)"
proof -
  let ?c = "withRequestID (resolvedID rnd c) c"
  from a have eq: "RequestIDMiddleware rnd (GinZap m start finish route) c
        = (Info m (URL_Path (Request ?c)) (completionFields ?c (route ?c) (Time_Sub finish start)), route ?c)"
    by (simp add: RequestIDMiddleware_eq GinZap_no_errors)
  from w have w': "w \<in> set (snd (Info m (URL_Path (Request ?c))
                      (completionFields ?c (route ?c) (Time_Sub finish start))))"
    by (simp add: eq)
  from a obtain level where g: "globalLogger m = Some (installed config level (length (heap m0)))"
    by (blast elim: Init_None_cases)
  from w' have lw: "ent_Level (w_entry w) = InfoLevel
      \<and> w_fields w = completionFields ?c (route ?c) (Time_Sub finish start)"
    by (auto simp: Info_Some [OF g] dest: Logger_log_writes)
  from a have "GetString (route ?c) ''requestId'' = resolvedID rnd c"
    by (simp add: withRequestID_GetString)
  then have "ZString ''request-id'' (resolvedID rnd c)
      \<in> set (completionFields ?c (route ?c) (Time_Sub finish start))"
    by (simp add: completionFields_def)
  with lw show ?thesis by simp
qed

subsection \<open>The example request\<close>

lemma health_header: "GetHeader healthContext ''X-Request-ID'' = ''abc''"
  by (simp add: GetHeader_def Header_Get_def healthContext_def healthRequest_def canonical_request_id)

lemma anon_header: "GetHeader anonContext ''X-Request-ID'' = []"
  by (simp add: GetHeader_def Header_Get_def anonContext_def)

lemma health_resolved: "resolvedID rnd healthContext = ''abc''"
  by (simp add: resolvedID_def health_header)

lemma health_route:
  "Errors (healthHandler (withRequestID rid healthContext)) = []"
  "GetString (healthHandler (withRequestID rid healthContext)) ''requestId''
     = GetString (withRequestID rid healthContext) ''requestId''"
  "Header_Get (Writer_Header (healthHandler (withRequestID rid healthContext))) ''X-Request-ID''
     = Header_Get (Writer_Header (withRequestID rid healthContext)) ''X-Request-ID''"
proof -
  have ct: "CanonicalMIMEHeaderKey ''Content-Type'' = ''Content-Type''" by code_simp
  show "Errors (healthHandler (withRequestID rid healthContext)) = []"
    by (simp add: healthHandler_def withRequestID_def healthContext_def)
  show "GetString (healthHandler (withRequestID rid healthContext)) ''requestId''
     = GetString (withRequestID rid healthContext) ''requestId''"
    by (simp add: healthHandler_def GetString_def)
  show "Header_Get (Writer_Header (healthHandler (withRequestID rid healthContext))) ''X-Request-ID''
     = Header_Get (Writer_Header (withRequestID rid healthContext)) ''X-Request-ID''"
    by (simp add: healthHandler_def Header_Get_def Header_Set_def withRequestID_def
          canonical_request_id ct)
qed

lemma example_uuid: "generateRequestID exampleRandom = ''00010203-0405-4607-8809-0a0b0c0d0e0f''"
  by code_simp

lemma health_completion_sinks:
  "map w_sink (snd (fst (GinZap devMemory 100 250 healthHandler (withRequestID ''abc'' healthContext))))
     = [Lock_Stdout, AddSync 0]"
  by (simp add: GinZap_no_errors health_route Info_def devMemory_logger Logger_log_def Let_def
        dev_cores Core_Write_def Enabled_def)

lemma info_admitted: "admits UnmarshalText devConfig InfoLevel"
  by (simp add: admits_def dev_level Enabled_def)

lemma audit_Init_snd:
  "Init UnmarshalText auditConfig startMemory = (None, snd (Init UnmarshalText auditConfig startMemory))"
  by (simp add: audit_Init)

subsection \<open>The encoding of a record for a file sink\<close>

lemma encodeField_spec: "encodeField (encoderConfigOf config) = specField"
proof
  fix f show "encodeField (encoderConfigOf config) f = specField f"
    by (cases f) (simp_all add: encoderConfigOf_def baseEncoderConfig_def)
qed

lemma json_installed:
  "json_EncodeEntry (encoderConfigOf config) ctx
     \<lparr>ent_Level = lvl, ent_LoggerName = nm, ent_Message = msg,
      ent_Caller_Defined = (\<not> DisableCaller config),
      ent_Stack = (case (if DisableStacktrace config then None else Some ErrorLevel) of
                     None \<Rightarrow> False | Some l \<Rightarrow> Enabled l lvl)\<rparr> fs
   = specFileRecord config nm ctx lvl msg fs"
  unfolding json_EncodeEntry_def encodeField_spec
  by (simp add: specFileRecord_def encoderConfigOf_def baseEncoderConfig_def OmitKey_def Enabled_def)

lemma file_core_of_installed:
  assumes "c \<in> set (core (installed config level n))" and "out c = AddSync a"
  shows "enc c = NewJSONEncoder (encoderConfigOf config)"
  using assms by (auto simp: installed_sel consoleCores_def fileCoreAt_def split: if_splits)

section \<open>Initialisation succeeds exactly on a recognised level\<close>

text \<open>
  C1. \<open>Init\<close> returns nil exactly when the parser recognises the configured level string.
  When the string is not recognised, the call returns the error with the memory untouched:
  no lumberjack instance was allocated and no core was installed. For a parser that
  recognises the six level names, \<open>Init\<close> succeeds on each of them.
\<close>

theorem Init_succeeds_iff_level_recognised:
  "(fst (Init unmarshalText config m) = None) = (unmarshalText (Level config) \<noteq> None)
   \<and> (unmarshalText (Level config) = None \<longrightarrow>
        fst (Init unmarshalText config m) = Some (UnrecognizedLevel (Level config))
        \<and> heap (snd (Init unmarshalText config m)) = heap m)
   \<and> ((\<forall>l \<in> set levelNames. unmarshalText l \<noteq> None) \<longrightarrow>
        (\<forall>l \<in> set levelNames. fst (Init unmarshalText (config\<lparr>Level := l\<rparr>) m) = None))"
proof (intro conjI impI ballI)
  show "(fst (Init unmarshalText config m) = None) = (unmarshalText (Level config) \<noteq> None)"
  proof (cases "unmarshalText (Level config)")
    case None
    then show ?thesis by (simp add: Init_fails_unchanged)
  next
    case (Some level)
    then show ?thesis by (simp add: Init_ok_fst)
  qed
next
  assume "unmarshalText (Level config) = None"
  then show "fst (Init unmarshalText config m) = Some (UnrecognizedLevel (Level config))"
    by (simp add: Init_fails_unchanged)
next
  assume "unmarshalText (Level config) = None"
  then show "heap (snd (Init unmarshalText config m)) = heap m"
    by (simp add: Init_fails_unchanged)
next
  fix l
  assume all: "\<forall>l \<in> set levelNames. unmarshalText l \<noteq> None" and l: "l \<in> set levelNames"
  then obtain level where "unmarshalText (Level (config\<lparr>Level := l\<rparr>)) = Some level"
    by auto
  then show "fst (Init unmarshalText (config\<lparr>Level := l\<rparr>) m) = None"
    by (rule Init_ok_fst)
qed

theorem Init_succeeds_iff_level_recognised_witness:
  "UnmarshalText (Level (prodConfig\<lparr>Level := ''verbose''\<rparr>)) = None
   \<and> fst (Init UnmarshalText (prodConfig\<lparr>Level := ''verbose''\<rparr>) startMemory) = Some (UnrecognizedLevel ''verbose'')
   \<and> heap (snd (Init UnmarshalText (prodConfig\<lparr>Level := ''verbose''\<rparr>) startMemory)) = []
   \<and> UnmarshalText ''debug'' \<noteq> None \<and> UnmarshalText ''info'' \<noteq> None \<and> UnmarshalText ''warn'' \<noteq> None
   \<and> UnmarshalText ''error'' \<noteq> None \<and> UnmarshalText ''fatal'' \<noteq> None \<and> UnmarshalText ''panic'' \<noteq> None
   \<and> fst (Init UnmarshalText (prodConfig\<lparr>Level := ''debug''\<rparr>) startMemory) = None
   \<and> fst (Init UnmarshalText (prodConfig\<lparr>Level := ''info''\<rparr>) startMemory) = None
   \<and> fst (Init UnmarshalText (prodConfig\<lparr>Level := ''warn''\<rparr>) startMemory) = None
   \<and> fst (Init UnmarshalText (prodConfig\<lparr>Level := ''error''\<rparr>) startMemory) = None
   \<and> fst (Init UnmarshalText (prodConfig\<lparr>Level := ''fatal''\<rparr>) startMemory) = None
   \<and> fst (Init UnmarshalText (prodConfig\<lparr>Level := ''panic''\<rparr>) startMemory) = None"
proof -
  have bad: "UnmarshalText (Level (prodConfig\<lparr>Level := ''verbose''\<rparr>)) = None"
    by (simp add: UnmarshalText_def)
  have good: "\<forall>l \<in> set levelNames. UnmarshalText l \<noteq> None"
    by (simp add: levelNames_def UnmarshalText_def)
  note a = Init_succeeds_iff_level_recognised [of UnmarshalText "prodConfig\<lparr>Level := ''verbose''\<rparr>" startMemory]
  note b = Init_succeeds_iff_level_recognised [of UnmarshalText prodConfig startMemory]
  from a bad have 1: "fst (Init UnmarshalText (prodConfig\<lparr>Level := ''verbose''\<rparr>) startMemory) = Some (UnrecognizedLevel ''verbose'')"
    and 2: "heap (snd (Init UnmarshalText (prodConfig\<lparr>Level := ''verbose''\<rparr>) startMemory)) = []"
    by (simp_all add: startMemory_def)
  from b good have 3: "\<forall>l \<in> set levelNames. fst (Init UnmarshalText (prodConfig\<lparr>Level := l\<rparr>) startMemory) = None"
    by blast
  from bad 1 2 3 good show ?thesis
    by (simp add: levelNames_def)
qed

section \<open>Fields of the configuration that are not read\<close>

text \<open>
  C9. \<open>Init\<close> never reads \<open>Encoding\<close> and \<open>ErrorOutputPaths\<close>: two configurations that
  differ only there give the same returned error and the same memory, hence the same
  logger, the same sinks and the same writes for every later call.
\<close>

theorem Init_ignores_Encoding_and_ErrorOutputPaths:
  "Init unmarshalText (config\<lparr>Encoding := e, ErrorOutputPaths := ps\<rparr>) m = Init unmarshalText config m"
  by (simp add: Init_def addFileCores_ignores encoderConfigOf_def consoleCores_def optsOf_def
           split: option.splits)

section \<open>A failed initialisation after a successful one\<close>

text \<open>
  C6 as stated says that a failing \<open>Init\<close> leaves no prior logger usable. It does not hold:
  after \<open>Init\<close> with the development configuration, a second \<open>Init\<close> with the level
  \<open>verbose\<close> returns the error, and \<open>Info\<close> still writes to the console and to the file.
\<close>

theorem failed_Init_leaves_logger_usable_counterexample:
  "fst (Init UnmarshalText devConfig startMemory) = None
   \<and> fst (Init UnmarshalText (devConfig\<lparr>Level := ''verbose''\<rparr>) (snd (Init UnmarshalText devConfig startMemory))) 
        = Some (UnrecognizedLevel ''verbose'')
   \<and> map w_sink (snd (Info (snd (Init UnmarshalText (devConfig\<lparr>Level := ''verbose''\<rparr>)
        (snd (Init UnmarshalText devConfig startMemory)))) ''still logging'' []))
      = [Lock_Stdout, AddSync 0]"
proof -
  have "Init UnmarshalText (devConfig\<lparr>Level := ''verbose''\<rparr>) (snd (Init UnmarshalText devConfig startMemory))
          = (Some (UnrecognizedLevel ''verbose''), snd (Init UnmarshalText devConfig startMemory))"
    using Init_fails_unchanged [where unmarshalText = UnmarshalText
            and config = "devConfig\<lparr>Level := ''verbose''\<rparr>", OF bad_level]
    by simp
  moreover have "fst (Init UnmarshalText devConfig startMemory) = None"
    by (simp add: dev_Init)
  ultimately show ?thesis
    using Info_after_dev by simp
qed

text \<open>
  C6, amended. A call of \<open>Init\<close> with an unrecognised level after a successful \<open>Init\<close>
  returns the error and leaves the memory exactly as the successful call left it: the logger
  installed before stays installed, and logging goes on as before.
\<close>

theorem failed_Init_keeps_previous_logger:
  assumes "unmarshalText (Level good) \<noteq> None" and "unmarshalText (Level bad) = None"
  shows "fst (Init unmarshalText bad (snd (Init unmarshalText good m))) = Some (UnrecognizedLevel (Level bad))
    \<and> snd (Init unmarshalText bad (snd (Init unmarshalText good m))) = snd (Init unmarshalText good m)
    \<and> globalLogger (snd (Init unmarshalText bad (snd (Init unmarshalText good m)))) \<noteq> None
    \<and> Info (snd (Init unmarshalText bad (snd (Init unmarshalText good m)))) msg fs
        = Info (snd (Init unmarshalText good m)) msg fs
    \<and> Error (snd (Init unmarshalText bad (snd (Init unmarshalText good m)))) msg fs
        = Error (snd (Init unmarshalText good m)) msg fs"
proof -
  from assms(1) obtain level where "unmarshalText (Level good) = Some level" by auto
  then have g: "globalLogger (snd (Init unmarshalText good m)) \<noteq> None"
    by (simp add: Init_ok)
  from assms(2) have
    "Init unmarshalText bad (snd (Init unmarshalText good m))
       = (Some (UnrecognizedLevel (Level bad)), snd (Init unmarshalText good m))"
    by (rule Init_fails_unchanged)
  with g show ?thesis by simp
qed

theorem failed_Init_keeps_previous_logger_witness:
  "fst (Init UnmarshalText (devConfig\<lparr>Level := ''verbose''\<rparr>) (snd (Init UnmarshalText devConfig startMemory)))
      = Some (UnrecognizedLevel (Level (devConfig\<lparr>Level := ''verbose''\<rparr>)))
   \<and> snd (Init UnmarshalText (devConfig\<lparr>Level := ''verbose''\<rparr>) (snd (Init UnmarshalText devConfig startMemory)))
      = snd (Init UnmarshalText devConfig startMemory)
   \<and> globalLogger (snd (Init UnmarshalText (devConfig\<lparr>Level := ''verbose''\<rparr>)
        (snd (Init UnmarshalText devConfig startMemory)))) \<noteq> None
   \<and> Info (snd (Init UnmarshalText (devConfig\<lparr>Level := ''verbose''\<rparr>)
        (snd (Init UnmarshalText devConfig startMemory)))) ''still logging'' []
      = Info (snd (Init UnmarshalText devConfig startMemory)) ''still logging'' []
   \<and> Error (snd (Init UnmarshalText (devConfig\<lparr>Level := ''verbose''\<rparr>)
        (snd (Init UnmarshalText devConfig startMemory)))) ''still logging'' []
      = Error (snd (Init UnmarshalText devConfig startMemory)) ''still logging'' []"
proof -
  have good: "UnmarshalText (Level devConfig) \<noteq> None"
    by (simp add: dev_level)
  show ?thesis
    by (rule failed_Init_keeps_previous_logger
         [where unmarshalText = UnmarshalText and good = devConfig
            and bad = "devConfig\<lparr>Level := ''verbose''\<rparr>" and m = startMemory
            and msg = "''still logging''" and fs = "[]", OF good bad_level])
qed

section \<open>Console names among the output paths\<close>

text \<open>
  C5. The claim routes the output paths \<open>stdout\<close> and \<open>stderr\<close> to a console sink. The
  loop skips them as handled, but the console core is built only in development mode: with
  \<open>Development\<close> off and the single output path \<open>stdout\<close>, \<open>Init\<close> succeeds with no core
  at all, and a record admitted by the level is written nowhere.
\<close>

theorem stdout_target_without_development_has_no_sink:
  "fst (Init UnmarshalText prodConfig startMemory) = None
   \<and> OutputPaths prodConfig = [''stdout'']
   \<and> map_option core (globalLogger (snd (Init UnmarshalText prodConfig startMemory))) = Some []
   \<and> Info (snd (Init UnmarshalText prodConfig startMemory)) ''hello'' [] = (None, [])
   \<and> Error (snd (Init UnmarshalText prodConfig startMemory)) ''hello'' [] = (None, [])"
  by (simp add: prod_Init Info_def Error_def Logger_log_def Let_def prod_cores prod_paths)

section \<open>Logging before and after initialisation\<close>

text \<open>
  C10 as stated lets every operation fault while the logger is nil. \<open>WithFields\<close> without
  fields does not: Logger.With returns its receiver when it is given no fields, so the call
  returns the nil logger.
\<close>

theorem WithFields_no_fields_counterexample:
  "globalLogger startMemory = None \<and> WithFields startMemory [] = Inr None"
  by (simp add: startMemory_def WithFields_def Logger_With_def)

text \<open>
  C10, amended. The logger handle is nil at program start and stays nil through every failed
  \<open>Init\<close>. While it is nil, Debug, Info, Warn, Error, Fatal, Panic, ErrorWithStack and Sync
  fault on a nil dereference, and so does WithFields when it is given at least one field;
  WithFields without fields returns the nil logger. After a successful \<open>Init\<close> the handle is
  not nil and none of these operations faults on a nil logger: the leveled ones return
  (Fatal exits and Panic panics, after writing), Sync and WithFields return a value.
\<close>

theorem nil_logger_faults_until_Init:
  "globalLogger startMemory = None
   \<and> (fst (Init unmarshalText config m) \<noteq> None \<longrightarrow>
         globalLogger (snd (Init unmarshalText config m)) = globalLogger m)
   \<and> (globalLogger m = None \<longrightarrow>
         Debug m msg fs = (Some NilDereference, [])
         \<and> Info m msg fs = (Some NilDereference, [])
         \<and> Warn m msg fs = (Some NilDereference, [])
         \<and> Error m msg fs = (Some NilDereference, [])
         \<and> Fatal m msg fs = (Some NilDereference, [])
         \<and> Panic m msg fs = (Some NilDereference, [])
         \<and> ErrorWithStack m trace err fs = (Some NilDereference, [])
         \<and> Sync stdoutSync m = Inl NilDereference
         \<and> (fs \<noteq> [] \<longrightarrow> WithFields m fs = Inl NilDereference)
         \<and> WithFields m [] = Inr None)
   \<and> (fst (Init unmarshalText config m) = None \<longrightarrow>
         globalLogger (snd (Init unmarshalText config m)) \<noteq> None
         \<and> fst (Debug (snd (Init unmarshalText config m)) msg fs) = None
         \<and> fst (Info (snd (Init unmarshalText config m)) msg fs) = None
         \<and> fst (Warn (snd (Init unmarshalText config m)) msg fs) = None
         \<and> fst (Error (snd (Init unmarshalText config m)) msg fs) = None
         \<and> fst (Fatal (snd (Init unmarshalText config m)) msg fs) = Some Exited
         \<and> fst (Panic (snd (Init unmarshalText config m)) msg fs) = Some (Panicked msg)
         \<and> fst (ErrorWithStack (snd (Init unmarshalText config m)) trace (Some reason) fs) = None
         \<and> Sync stdoutSync (snd (Init unmarshalText config m)) \<noteq> Inl NilDereference
         \<and> WithFields (snd (Init unmarshalText config m)) fs \<noteq> Inl NilDereference
         \<and> WithFields (snd (Init unmarshalText config m)) fs \<noteq> Inr None)"
proof (intro conjI impI)
  show "globalLogger startMemory = None" by (simp add: startMemory_def)
next
  assume "fst (Init unmarshalText config m) \<noteq> None"
  then show "globalLogger (snd (Init unmarshalText config m)) = globalLogger m"
    by (cases "unmarshalText (Level config)") (simp_all add: Init_fails_unchanged Init_ok_fst)
next
  assume nil: "globalLogger m = None"
  show "Debug m msg fs = (Some NilDereference, [])" using nil by (simp add: Debug_def)
  show "Info m msg fs = (Some NilDereference, [])" using nil by (simp add: Info_def)
  show "Warn m msg fs = (Some NilDereference, [])" using nil by (simp add: Warn_def)
  show "Error m msg fs = (Some NilDereference, [])" using nil by (simp add: Error_def)
  show "Fatal m msg fs = (Some NilDereference, [])" using nil by (simp add: Fatal_def)
  show "Panic m msg fs = (Some NilDereference, [])" using nil by (simp add: Panic_def)
  show "ErrorWithStack m trace err fs = (Some NilDereference, [])"
    using nil by (simp add: ErrorWithStack_def Let_def split: option.splits)
  show "Sync stdoutSync m = Inl NilDereference" using nil by (simp add: Sync_def)
  show "WithFields m [] = Inr None" using nil by (simp add: WithFields_def Logger_With_def)
  assume "fs \<noteq> []"
  then show "WithFields m fs = Inl NilDereference"
    using nil by (simp add: WithFields_def Logger_With_def)
next
  assume ok: "fst (Init unmarshalText config m) = None"
  then obtain level where lv: "unmarshalText (Level config) = Some level"
    by (cases "unmarshalText (Level config)") (simp_all add: Init_fails_unchanged)
  define log where "log = installed config level (length (heap m))"
  have g: "globalLogger (snd (Init unmarshalText config m)) = Some log"
    using lv by (simp add: Init_ok log_def)
  show "globalLogger (snd (Init unmarshalText config m)) \<noteq> None" by (simp add: g)
  show "fst (Debug (snd (Init unmarshalText config m)) msg fs) = None"
    by (simp add: Debug_def g Logger_log_fst)
  show "fst (Info (snd (Init unmarshalText config m)) msg fs) = None"
    by (simp add: Info_def g Logger_log_fst)
  show "fst (Warn (snd (Init unmarshalText config m)) msg fs) = None"
    by (simp add: Warn_def g Logger_log_fst)
  show "fst (Error (snd (Init unmarshalText config m)) msg fs) = None"
    by (simp add: Error_def g Logger_log_fst)
  show "fst (Fatal (snd (Init unmarshalText config m)) msg fs) = Some Exited"
    by (simp add: Fatal_def g Logger_log_fst)
  show "fst (Panic (snd (Init unmarshalText config m)) msg fs) = Some (Panicked msg)"
    by (simp add: Panic_def g Logger_log_fst)
  show "fst (ErrorWithStack (snd (Init unmarshalText config m)) trace (Some reason) fs) = None"
    by (simp add: ErrorWithStack_def Let_def g Logger_log_fst)
  show "Sync stdoutSync (snd (Init unmarshalText config m)) \<noteq> Inl NilDereference"
    by (simp add: Sync_def g)
  show "WithFields (snd (Init unmarshalText config m)) fs \<noteq> Inl NilDereference"
    by (simp add: WithFields_def Logger_With_def g)
  show "WithFields (snd (Init unmarshalText config m)) fs \<noteq> Inr None"
    by (simp add: WithFields_def Logger_With_def g)
qed

lemma fs_ne: "[ZString ''k'' ''v''] \<noteq> []" by simp

theorem nil_logger_faults_until_Init_witness:
  "globalLogger startMemory = None
   \<and> Info startMemory ''m'' [ZString ''k'' ''v''] = (Some NilDereference, [])
   \<and> ErrorWithStack startMemory ''goroutine 1 [running]:'' (Some ''e'') [ZString ''k'' ''v'']
        = (Some NilDereference, [])
   \<and> Sync (None :: error option) startMemory = Inl NilDereference
   \<and> WithFields startMemory [ZString ''k'' ''v''] = Inl NilDereference
   \<and> WithFields startMemory [] = Inr None
   \<and> fst (Init UnmarshalText (devConfig\<lparr>Level := ''verbose''\<rparr>) startMemory) \<noteq> None
   \<and> globalLogger (snd (Init UnmarshalText (devConfig\<lparr>Level := ''verbose''\<rparr>) startMemory)) = None
   \<and> fst (Init UnmarshalText devConfig startMemory) = None
   \<and> fst (Info (snd (Init UnmarshalText devConfig startMemory)) ''m'' [ZString ''k'' ''v'']) = None
   \<and> fst (Fatal (snd (Init UnmarshalText devConfig startMemory)) ''m'' [ZString ''k'' ''v'']) = Some Exited
   \<and> Sync (None :: error option) (snd (Init UnmarshalText devConfig startMemory)) \<noteq> Inl NilDereference
   \<and> WithFields (snd (Init UnmarshalText devConfig startMemory)) [ZString ''k'' ''v''] \<noteq> Inl NilDereference"
proof -
  note good = nil_logger_faults_until_Init
    [where unmarshalText = UnmarshalText and config = devConfig and m = startMemory
       and msg = "''m''" and fs = "[ZString ''k'' ''v'']" and trace = "''goroutine 1 [running]:''"
       and err = "Some ''e''" and reason = "''e''" and stdoutSync = "None :: error option"]
  note bad = nil_logger_faults_until_Init
    [where unmarshalText = UnmarshalText and config = "devConfig\<lparr>Level := ''verbose''\<rparr>"
       and m = startMemory and msg = "''m''" and fs = "[ZString ''k'' ''v'']"
       and trace = "''goroutine 1 [running]:''"
       and err = "Some ''e''" and reason = "''e''" and stdoutSync = "None :: error option"]
  have nil: "globalLogger startMemory = None" by (simp add: startMemory_def)
  have ok: "fst (Init UnmarshalText devConfig startMemory) = None"
    by (simp add: dev_Init)
  have failed: "fst (Init UnmarshalText (devConfig\<lparr>Level := ''verbose''\<rparr>) startMemory) \<noteq> None"
    using bad_level by (simp add: Init_fails_unchanged)
  from good nil ok fs_ne bad failed show ?thesis
    by metis
qed

section \<open>One rotation policy per file target\<close>

text \<open>
  C7. When \<open>Init\<close> accepts a configuration, it allocates one lumberjack instance per file
  target, in order, each built from the target's path and the configuration's \<open>MaxSizeMB\<close>,
  \<open>MaxBackups\<close>, \<open>MaxAgeDays\<close> and \<open>Compress\<close>. The writers of the installed logger point at
  these instances: their addresses are pairwise distinct and did not exist before the call,
  so no two file targets share an instance, and none shares one with an earlier logger.
\<close>

theorem each_file_target_has_its_own_rotation_policy:
  assumes ok: "fst (Init unmarshalText config m) = None"
  shows "heap (snd (Init unmarshalText config m))
           = heap m @ map (rotationPolicy config) (fileTargets (OutputPaths config))
    \<and> (\<exists>as. fileSinks (snd (Init unmarshalText config m)) = Some as
          \<and> length as = length (fileTargets (OutputPaths config))
          \<and> distinct as
          \<and> (\<forall>a \<in> set as. length (heap m) \<le> a \<and> a < length (heap (snd (Init unmarshalText config m))))
          \<and> (\<forall>i < length as.
                heap (snd (Init unmarshalText config m)) ! (as ! i)
                  = rotationPolicy config (fileTargets (OutputPaths config) ! i)))"
proof -
  from ok obtain level where lv: "unmarshalText (Level config) = Some level"
    by (rule Init_accepts)
  let ?n = "length (heap m)" and ?ts = "fileTargets (OutputPaths config)"
  have h: "heap (snd (Init unmarshalText config m)) = heap m @ map (rotationPolicy config) ?ts"
    using lv by (simp add: Init_ok)
  have g: "globalLogger (snd (Init unmarshalText config m)) = Some (installed config level ?n)"
    using lv by (simp add: Init_ok)
  have s: "fileSinks (snd (Init unmarshalText config m)) = Some [?n ..< ?n + length ?ts]"
    by (simp add: fileSinks_def g fileAddrs_installed)
  have nth: "\<forall>i < length [?n ..< ?n + length ?ts].
          heap (snd (Init unmarshalText config m)) ! ([?n ..< ?n + length ?ts] ! i)
            = rotationPolicy config (?ts ! i)"
    by (simp add: h nth_append)
  have bounds: "\<forall>a \<in> set [?n ..< ?n + length ?ts].
          ?n \<le> a \<and> a < length (heap (snd (Init unmarshalText config m)))"
    by (simp add: h)
  have "length [?n ..< ?n + length ?ts] = length ?ts" "distinct [?n ..< ?n + length ?ts]"
    by simp_all
  with s nth bounds have "\<exists>as. fileSinks (snd (Init unmarshalText config m)) = Some as
          \<and> length as = length ?ts \<and> distinct as
          \<and> (\<forall>a \<in> set as. ?n \<le> a \<and> a < length (heap (snd (Init unmarshalText config m))))
          \<and> (\<forall>i < length as.
                heap (snd (Init unmarshalText config m)) ! (as ! i) = rotationPolicy config (?ts ! i))"
    by blast
  with h show ?thesis by blast
qed

theorem each_file_target_has_its_own_rotation_policy_witness:
  "fst (Init UnmarshalText auditConfig startMemory) = None
   \<and> heap (snd (Init UnmarshalText auditConfig startMemory))
       = [rotationPolicy auditConfig ''logs/app.log'', rotationPolicy auditConfig ''logs/audit.log'']
   \<and> (\<exists>as. fileSinks (snd (Init UnmarshalText auditConfig startMemory)) = Some as
          \<and> length as = 2 \<and> distinct as)"
proof -
  have ok: "fst (Init UnmarshalText auditConfig startMemory) = None"
    using audit_level by (simp add: Init_ok_fst)
  from each_file_target_has_its_own_rotation_policy
         [where unmarshalText = UnmarshalText and config = auditConfig and m = startMemory, OF ok]
  have "heap (snd (Init UnmarshalText auditConfig startMemory))
           = heap startMemory @ map (rotationPolicy auditConfig) (fileTargets (OutputPaths auditConfig))"
    and "\<exists>as. fileSinks (snd (Init UnmarshalText auditConfig startMemory)) = Some as
          \<and> length as = length (fileTargets (OutputPaths auditConfig)) \<and> distinct as"
    by blast+
  with ok show ?thesis
    by (simp add: audit_targets startMemory_def numeral_2_eq_2)
qed

section \<open>The shape of a record in a file sink\<close>

text \<open>
  C8 as stated gives the level of a file record as the lowercase severity name. In development
  mode \<open>Init\<close> switches the shared encoder configuration to the colour level encoder before
  it builds the file encoders, so the level of a file record is wrapped in an escape sequence.
\<close>

theorem development_file_record_level_counterexample:
  "fst (Init UnmarshalText devConfig startMemory) = None
   \<and> map w_text (writesTo (AddSync 0)
        (snd (Info (snd (Init UnmarshalText devConfig startMemory)) ''hi'' [])))
      = [JSONObject
          [(''level'', JString [CHR 0x1B, CHR ''['', CHR ''3'', CHR ''4'', CHR ''m'',
                                CHR ''i'', CHR ''n'', CHR ''f'', CHR ''o'',
                                CHR 0x1B, CHR ''['', CHR ''0'', CHR ''m'']),
           (''ts'', JTime ISO8601TimeEncoder),
           (''caller'', JCaller ShortCallerEncoder),
           (''msg'', JString ''hi'')]]
   \<and> [CHR 0x1B, CHR ''['', CHR ''3'', CHR ''4'', CHR ''m'', CHR ''i'', CHR ''n'', CHR ''f'', CHR ''o'',
       CHR 0x1B, CHR ''['', CHR ''0'', CHR ''m''] \<noteq> Level_String InfoLevel"
  by (simp add: dev_Init Info_def Logger_log_def Let_def dev_cores Core_Write_def Enabled_def
        writesTo_def installed_sel(2-5) dev_sel json_EncodeEntry_def encoderConfigOf_def
        baseEncoderConfig_def OmitKey_def)

text \<open>
  C8, amended. For every configuration accepted by \<open>Init\<close>, every record that the installed
  logger, or a child of it with a name and With fields, writes to a file sink is the JSON
  object of \<open>specFileRecord\<close>: level (the lowercase severity name, wrapped in the colour
  escape sequence in development mode), ts, logger when the logger is named, caller unless
  \<open>DisableCaller\<close> is set, msg, the structured fields, and stacktrace from error level on
  unless \<open>DisableStacktrace\<close> is set. The installed logger itself has no name and no With
  fields.
\<close>

theorem file_records_are_json_with_fixed_keys:
  assumes ok: "fst (Init unmarshalText config m) = None"
    and g: "globalLogger (snd (Init unmarshalText config m)) = Some log"
    and w: "w \<in> set (snd (Logger_log (log\<lparr>name := nm, withFields := ctx\<rparr>) lvl msg fs))"
    and f: "w_sink w = AddSync a"
  shows "w_text w = JSONObject (specFileRecord config nm ctx lvl msg fs)
    \<and> log\<lparr>name := [], withFields := []\<rparr> = log"
proof -
  from ok obtain level where lv: "unmarshalText (Level config) = Some level"
    by (rule Init_accepts)
  from g lv have log: "log = installed config level (length (heap m))"
    by (simp add: Init_ok)
  let ?ent = "\<lparr>ent_Level = lvl, ent_LoggerName = nm, ent_Message = msg,
      ent_Caller_Defined = (\<not> DisableCaller config),
      ent_Stack = (case (if DisableStacktrace config then None else Some ErrorLevel) of
                     None \<Rightarrow> False | Some l \<Rightarrow> Enabled l lvl)\<rparr>"
  from w obtain c where c: "c \<in> set (core log)" and wc: "w = Core_Write ctx ?ent fs c"
    by (auto simp: Logger_log_def Let_def log installed_sel(2,3))
  from f wc have "out c = AddSync a" by (simp add: Core_Write_def)
  with c have "enc c = NewJSONEncoder (encoderConfigOf config)"
    unfolding log by (rule file_core_of_installed)
  with wc have "w_text w = JSONObject (specFileRecord config nm ctx lvl msg fs)"
    by (simp add: Core_Write_def json_installed)
  moreover have "log\<lparr>name := [], withFields := []\<rparr> = log"
    by (simp add: log installed_def zap_New_def optsOf_def)
  ultimately show ?thesis by simp
qed

theorem file_records_are_json_with_fixed_keys_witness:
  "fst (Init UnmarshalText auditConfig startMemory) = None
   \<and> globalLogger (snd (Init UnmarshalText auditConfig startMemory))
        = Some (installed auditConfig WarnLevel 0)
   \<and> hd (snd (Logger_log ((installed auditConfig WarnLevel 0)\<lparr>name := [], withFields := []\<rparr>)
               ErrorLevel ''disk full'' [ZInt ''code'' 7]))
        \<in> set (snd (Logger_log ((installed auditConfig WarnLevel 0)\<lparr>name := [], withFields := []\<rparr>)
               ErrorLevel ''disk full'' [ZInt ''code'' 7]))
   \<and> w_sink (hd (snd (Logger_log ((installed auditConfig WarnLevel 0)\<lparr>name := [], withFields := []\<rparr>)
               ErrorLevel ''disk full'' [ZInt ''code'' 7]))) = AddSync 0
   \<and> w_text (hd (snd (Logger_log ((installed auditConfig WarnLevel 0)\<lparr>name := [], withFields := []\<rparr>)
               ErrorLevel ''disk full'' [ZInt ''code'' 7])))
        = JSONObject [(''level'', JString ''error''), (''ts'', JTime ISO8601TimeEncoder),
                      (''msg'', JString ''disk full''), (''code'', JInt 7), (''stacktrace'', JStack)]"
proof -
  let ?log = "installed auditConfig WarnLevel 0"
  let ?ws = "snd (Logger_log (?log\<lparr>name := [], withFields := []\<rparr>) ErrorLevel ''disk full'' [ZInt ''code'' 7])"
  have ok: "fst (Init UnmarshalText auditConfig startMemory) = None"
    by (simp add: audit_Init)
  have g: "globalLogger (snd (Init UnmarshalText auditConfig startMemory)) = Some ?log"
    by (simp add: audit_Init)
  have sinks: "map w_sink ?ws = [AddSync 0, AddSync 1]"
    by (simp add: Logger_log_def Let_def audit_cores Core_Write_def Enabled_def)
  then have ne: "?ws \<noteq> []" by auto
  then have mem: "hd ?ws \<in> set ?ws" by simp
  from sinks ne have sink: "w_sink (hd ?ws) = AddSync 0"
    by (cases ?ws) simp_all
  from file_records_are_json_with_fixed_keys
         [where unmarshalText = UnmarshalText and config = auditConfig and m = startMemory,
          OF ok g mem sink]
  have "w_text (hd ?ws) = JSONObject (specFileRecord auditConfig [] [] ErrorLevel ''disk full'' [ZInt ''code'' 7])"
    by (rule conjunct1)
  then have "w_text (hd ?ws)
        = JSONObject [(''level'', JString ''error''), (''ts'', JTime ISO8601TimeEncoder),
                      (''msg'', JString ''disk full''), (''code'', JInt 7), (''stacktrace'', JStack)]"
    by (simp add: specFileRecord_def auditConfig_def)
  with ok g mem sink show ?thesis by blast
qed

section \<open>Requests that accumulated errors\<close>

text \<open>
  C2. After a successful \<open>Init\<close>, for a request whose error accumulator is not empty when
  the chain returns, \<open>GinZap\<close> returns normally and its writes are exactly those of one
  error-level record per accumulated error text, in order, with the text as message and no
  fields: no latency, path, method or correlation field, and no info-level record. When the
  configured level admits the error level, every sink of the logger receives exactly one
  record per error text; when it does not, the logger drops them all. In particular a request
  that accumulated the one text boom gives one record with message boom in each sink.
\<close>

theorem GinZap_logs_each_error_once:
  assumes ok: "Init unmarshalText config m0 = (None, m)"
    and errs: "Errors (handler c) \<noteq> []"
  shows "(\<exists>log. globalLogger m = Some log
            \<and> GinZap m start finish handler c
                = ((None, concat (map (\<lambda>e. snd (Logger_log log ErrorLevel e [])) (Errors (handler c)))),
                   handler c))
    \<and> (\<forall>w \<in> set (snd (fst (GinZap m start finish handler c))).
          ent_Level (w_entry w) = ErrorLevel \<and> w_fields w = []
          \<and> ent_Message (w_entry w) \<in> set (Errors (handler c)))
    \<and> (admits unmarshalText config ErrorLevel \<longrightarrow>
          (\<forall>s \<in> set (sinks m).
             messages (writesTo s (snd (fst (GinZap m start finish handler c)))) = Errors (handler c)))
    \<and> (\<not> admits unmarshalText config ErrorLevel \<longrightarrow> snd (fst (GinZap m start finish handler c)) = [])"
proof -
  from ok obtain level where lv: "unmarshalText (Level config) = Some level"
    and g: "globalLogger m = Some (installed config level (length (heap m0)))"
    by (rule Init_None_cases)
  let ?log = "installed config level (length (heap m0))"
  let ?ws = "concat (map (\<lambda>e. snd (Logger_log ?log ErrorLevel e [])) (Errors (handler c)))"
  have eq: "GinZap m start finish handler c = ((None, ?ws), handler c)"
    using errs by (simp add: GinZap_def Let_def logErrors_Some [OF g])
  have lev: "\<forall>w \<in> set ?ws. ent_Level (w_entry w) = ErrorLevel \<and> w_fields w = []
          \<and> ent_Message (w_entry w) \<in> set (Errors (handler c))"
    by (auto dest: Logger_log_writes)
  have adm: "\<forall>s \<in> set (sinks m). messages (writesTo s ?ws) = Errors (handler c)"
    if "admits unmarshalText config ErrorLevel"
  proof
    fix s assume "s \<in> set (sinks m)"
    then have s: "s \<in> set (map out (core ?log))" by (simp add: sinks_def g)
    from that lv have en: "Enabled level ErrorLevel" by (simp add: admits_def)
    show "messages (writesTo s ?ws) = Errors (handler c)"
      by (rule messages_concat_single) (rule installed_one_write [OF en s])
  qed
  have nadm: "?ws = []" if "\<not> admits unmarshalText config ErrorLevel"
  proof -
    from that lv have "\<not> Enabled level ErrorLevel" by (simp add: admits_def)
    then show ?thesis by (simp add: installed_no_write)
  qed
  from g eq lev adm nadm show ?thesis by simp
qed

theorem GinZap_logs_each_error_once_witness:
  "Init UnmarshalText devConfig startMemory = (None, devMemory)
   \<and> Errors (failingHandler healthContext) = [''boom'']
   \<and> admits UnmarshalText devConfig ErrorLevel
   \<and> sinks devMemory = [Lock_Stdout, AddSync 0]
   \<and> fst (fst (GinZap devMemory 100 250 failingHandler healthContext)) = None
   \<and> messages (writesTo Lock_Stdout (snd (fst (GinZap devMemory 100 250 failingHandler healthContext)))) = [''boom'']
   \<and> messages (writesTo (AddSync 0) (snd (fst (GinZap devMemory 100 250 failingHandler healthContext)))) = [''boom'']
   \<and> \<not> admits UnmarshalText (devConfig\<lparr>Level := ''fatal''\<rparr>) ErrorLevel
   \<and> snd (fst (GinZap (snd (Init UnmarshalText (devConfig\<lparr>Level := ''fatal''\<rparr>) startMemory))
                   100 250 failingHandler healthContext)) = []"
proof -
  have errs: "Errors (failingHandler healthContext) = [''boom'']"
    by (simp add: failingHandler_def healthContext_def)
  then have ne: "Errors (failingHandler healthContext) \<noteq> []" by simp
  have adm: "admits UnmarshalText devConfig ErrorLevel"
    by (simp add: admits_def dev_level Enabled_def)
  note t = GinZap_logs_each_error_once
    [where unmarshalText = UnmarshalText and config = devConfig and ?m0.0 = startMemory
       and m = devMemory and c = healthContext and start = 100 and finish = 250
       and handler = failingHandler,
     OF dev_Init_devMemory ne]
  from t have r: "fst (fst (GinZap devMemory 100 250 failingHandler healthContext)) = None"
    by auto
  from t adm have
    "\<forall>s \<in> set (sinks devMemory).
        messages (writesTo s (snd (fst (GinZap devMemory 100 250 failingHandler healthContext))))
          = Errors (failingHandler healthContext)"
    by blast
  then have per:
    "messages (writesTo Lock_Stdout (snd (fst (GinZap devMemory 100 250 failingHandler healthContext)))) = [''boom'']"
    "messages (writesTo (AddSync 0) (snd (fst (GinZap devMemory 100 250 failingHandler healthContext)))) = [''boom'']"
    by (simp_all add: devMemory_sinks errs)
  have ok2: "Init UnmarshalText (devConfig\<lparr>Level := ''fatal''\<rparr>) startMemory
      = (None, snd (Init UnmarshalText (devConfig\<lparr>Level := ''fatal''\<rparr>) startMemory))"
    using fatal_level by (simp add: Init_ok)
  have nadm: "\<not> admits UnmarshalText (devConfig\<lparr>Level := ''fatal''\<rparr>) ErrorLevel"
    using fatal_level by (simp add: admits_def Enabled_def)
  note u = GinZap_logs_each_error_once
    [where unmarshalText = UnmarshalText and config = "devConfig\<lparr>Level := ''fatal''\<rparr>"
       and ?m0.0 = startMemory and c = healthContext and start = 100 and finish = 250
       and handler = failingHandler,
     OF ok2 ne]
  from u nadm have q: "snd (fst (GinZap (snd (Init UnmarshalText (devConfig\<lparr>Level := ''fatal''\<rparr>) startMemory))
                   100 250 failingHandler healthContext)) = []"
    by blast
  from dev_Init_devMemory errs adm devMemory_sinks r per nadm q show ?thesis
    by blast
qed

section \<open>Requests without errors\<close>

text \<open>
  C3. After a successful \<open>Init\<close>, for a request whose error accumulator is empty when the
  chain returns, \<open>GinZap\<close> returns normally and its writes are those of one info-level record
  with the request path as message and the fields status, method, path, query, ip, user-agent,
  latency and request-id, the last read from the context key requestId. With a monotonic
  clock (\<open>start \<le> finish\<close>) the latency is not negative, and it is \<open>finish - start\<close>
  unless that exceeds the largest duration. No error-level record is written. When the
  configured level admits the info level, every sink receives exactly one record; when it
  does not, the logger drops it.
\<close>

theorem GinZap_logs_one_completion_record:
  assumes ok: "Init unmarshalText config m0 = (None, m)"
    and noerr: "Errors (handler c) = []"
    and mono: "start \<le> finish"
  shows "(\<exists>log. globalLogger m = Some log
            \<and> GinZap m start finish handler c
                = ((None, snd (Logger_log log InfoLevel (URL_Path (Request c))
                                 (completionFields c (handler c) (Time_Sub finish start)))),
                   handler c))
    \<and> 0 \<le> Time_Sub finish start
    \<and> (finish - start \<le> maxDuration \<longrightarrow> Time_Sub finish start = finish - start)
    \<and> (\<forall>w \<in> set (snd (fst (GinZap m start finish handler c))).
          ent_Level (w_entry w) = InfoLevel
          \<and> ent_Message (w_entry w) = URL_Path (Request c)
          \<and> w_fields w = completionFields c (handler c) (Time_Sub finish start))
    \<and> (admits unmarshalText config InfoLevel \<longrightarrow>
          (\<forall>s \<in> set (sinks m).
             messages (writesTo s (snd (fst (GinZap m start finish handler c)))) = [URL_Path (Request c)]))
    \<and> (\<not> admits unmarshalText config InfoLevel \<longrightarrow> snd (fst (GinZap m start finish handler c)) = [])"
proof -
  from ok obtain level where lv: "unmarshalText (Level config) = Some level"
    and g: "globalLogger m = Some (installed config level (length (heap m0)))"
    by (rule Init_None_cases)
  let ?log = "installed config level (length (heap m0))"
  let ?fs = "completionFields c (handler c) (Time_Sub finish start)"
  let ?ws = "snd (Logger_log ?log InfoLevel (URL_Path (Request c)) ?fs)"
  have eq: "GinZap m start finish handler c = ((None, ?ws), handler c)"
    using noerr by (simp add: GinZap_no_errors Info_Some [OF g])
  have lev: "\<forall>w \<in> set ?ws. ent_Level (w_entry w) = InfoLevel
          \<and> ent_Message (w_entry w) = URL_Path (Request c) \<and> w_fields w = ?fs"
    by (auto dest: Logger_log_writes)
  have adm: "\<forall>s \<in> set (sinks m). messages (writesTo s ?ws) = [URL_Path (Request c)]"
    if "admits unmarshalText config InfoLevel"
  proof
    fix s assume "s \<in> set (sinks m)"
    then have s: "s \<in> set (map out (core ?log))" by (simp add: sinks_def g)
    from that lv have en: "Enabled level InfoLevel" by (simp add: admits_def)
    show "messages (writesTo s ?ws) = [URL_Path (Request c)]"
      by (rule installed_one_write [OF en s])
  qed
  have nadm: "?ws = []" if "\<not> admits unmarshalText config InfoLevel"
  proof -
    from that lv have "\<not> Enabled level InfoLevel" by (simp add: admits_def)
    then show ?thesis by (simp add: installed_no_write)
  qed
  from g eq lev adm nadm Time_Sub_mono [OF mono] Time_Sub_exact [OF mono] show ?thesis by simp
qed

theorem GinZap_logs_one_completion_record_witness:
  "Init UnmarshalText devConfig startMemory = (None, devMemory)
   \<and> Errors (healthHandler (withRequestID ''abc'' healthContext)) = []
   \<and> (100 :: int) \<le> 250
   \<and> fst (fst (GinZap devMemory 100 250 healthHandler (withRequestID ''abc'' healthContext))) = None
   \<and> 0 \<le> Time_Sub 250 100
   \<and> Time_Sub 250 100 = 250 - 100
   \<and> admits UnmarshalText devConfig InfoLevel
   \<and> messages (writesTo Lock_Stdout
        (snd (fst (GinZap devMemory 100 250 healthHandler (withRequestID ''abc'' healthContext)))))
       = [''/health'']
   \<and> messages (writesTo (AddSync 0)
        (snd (fst (GinZap devMemory 100 250 healthHandler (withRequestID ''abc'' healthContext)))))
       = [''/health'']
   \<and> completionFields (withRequestID ''abc'' healthContext)
        (healthHandler (withRequestID ''abc'' healthContext)) (Time_Sub 250 100)
       = [ZInt ''status'' 200, ZString ''method'' ''GET'', ZString ''path'' ''/health'',
          ZString ''query'' [], ZString ''ip'' ''10.0.0.7'', ZString ''user-agent'' ''curl/8.5.0'',
          ZDuration ''latency'' 150, ZString ''request-id'' ''abc'']
   \<and> \<not> admits UnmarshalText auditConfig InfoLevel
   \<and> snd (fst (GinZap (snd (Init UnmarshalText auditConfig startMemory)) 100 250 healthHandler
                  (withRequestID ''abc'' healthContext))) = []"
proof -
  let ?c = "withRequestID ''abc'' healthContext"
  have mono: "(100 :: int) \<le> 250" by simp
  have small: "(250 :: int) - 100 \<le> maxDuration" by (simp add: maxDuration_def)
  note t = GinZap_logs_one_completion_record
    [where unmarshalText = UnmarshalText and config = devConfig and ?m0.0 = startMemory
       and m = devMemory and handler = healthHandler and c = ?c and start = 100 and finish = 250,
     OF dev_Init_devMemory health_route(1) mono]
  from t have 1: "fst (fst (GinZap devMemory 100 250 healthHandler ?c)) = None"
    by auto
  from t have 2: "0 \<le> Time_Sub 250 100" by blast
  from t small have 3: "Time_Sub 250 100 = 250 - 100" by blast
  from t info_admitted have
    "\<forall>s \<in> set (sinks devMemory).
       messages (writesTo s (snd (fst (GinZap devMemory 100 250 healthHandler ?c))))
         = [URL_Path (Request ?c)]"
    by blast
  moreover have "URL_Path (Request ?c) = ''/health''"
    by (simp add: withRequestID_def healthContext_def healthRequest_def)
  ultimately have 4:
    "messages (writesTo Lock_Stdout (snd (fst (GinZap devMemory 100 250 healthHandler ?c)))) = [''/health'']"
    "messages (writesTo (AddSync 0) (snd (fst (GinZap devMemory 100 250 healthHandler ?c)))) = [''/health'']"
    by (simp_all add: devMemory_sinks)
  have ua: "CanonicalMIMEHeaderKey ''User-Agent'' = ''User-Agent''" by code_simp
  have 5: "completionFields ?c (healthHandler ?c) (Time_Sub 250 100)
       = [ZInt ''status'' 200, ZString ''method'' ''GET'', ZString ''path'' ''/health'',
          ZString ''query'' [], ZString ''ip'' ''10.0.0.7'', ZString ''user-agent'' ''curl/8.5.0'',
          ZDuration ''latency'' 150, ZString ''request-id'' ''abc'']"
    unfolding 3
    by (simp add: completionFields_def healthHandler_def withRequestID_def healthContext_def
          healthRequest_def UserAgent_def Header_Get_def GetString_def ua)
  have nadm: "\<not> admits UnmarshalText auditConfig InfoLevel"
    by (simp add: admits_def audit_level Enabled_def)
  note u = GinZap_logs_one_completion_record
    [where unmarshalText = UnmarshalText and config = auditConfig and ?m0.0 = startMemory
       and handler = healthHandler and c = ?c and start = 100 and finish = 250,
     OF audit_Init_snd health_route(1) mono]
  from u nadm have 6: "snd (fst (GinZap (snd (Init UnmarshalText auditConfig startMemory)) 100 250
                  healthHandler ?c)) = []"
    by blast
  from dev_Init_devMemory health_route(1) [of "''abc''"] mono 1 2 3 info_admitted 4 5 nadm 6
  show ?thesis by blast
qed

section \<open>The correlation identifier\<close>

text \<open>
  C4. \<open>RequestIDMiddleware\<close> always runs the rest of the chain, on the context with the
  resolved identifier stored under the key requestId and set as the response header
  X-Request-ID. The identifier is the inbound header X-Request-ID when that is present and
  not empty, and otherwise a generated one, which has 36 characters. When the chain
  continues with \<open>GinZap\<close> and a route that leaves the key and the response header alone and
  appends no error, the response carries the resolved identifier and every completion record
  carries it in the field request-id; so a request with X-Request-ID abc gets abc in both.
\<close>

theorem RequestIDMiddleware_resolves_and_proceeds:
  "(GetHeader c ''X-Request-ID'' \<noteq> [] \<longrightarrow>
      RequestIDMiddleware rnd handler c = handler (withRequestID (GetHeader c ''X-Request-ID'') c))
   \<and> (GetHeader c ''X-Request-ID'' = [] \<longrightarrow>
      RequestIDMiddleware rnd handler c = handler (withRequestID (generateRequestID rnd) c))
   \<and> length (generateRequestID rnd) = 36
   \<and> resolvedID rnd c \<noteq> []
   \<and> GetString (withRequestID rid c) ''requestId'' = rid
   \<and> Header_Get (Writer_Header (withRequestID rid c)) ''X-Request-ID'' = rid
   \<and> (Init unmarshalText config m0 = (None, m)
        \<and> Errors (route (withRequestID (resolvedID rnd c) c)) = []
        \<and> GetString (route (withRequestID (resolvedID rnd c) c)) ''requestId''
            = GetString (withRequestID (resolvedID rnd c) c) ''requestId''
        \<and> Header_Get (Writer_Header (route (withRequestID (resolvedID rnd c) c))) ''X-Request-ID''
            = Header_Get (Writer_Header (withRequestID (resolvedID rnd c) c)) ''X-Request-ID''
      \<longrightarrow>
        Header_Get (Writer_Header (snd (RequestIDMiddleware rnd (GinZap m start finish route) c)))
            ''X-Request-ID'' = resolvedID rnd c
        \<and> (\<forall>w \<in> set (snd (fst (RequestIDMiddleware rnd (GinZap m start finish route) c))).
              ent_Level (w_entry w) = InfoLevel
              \<and> ZString ''request-id'' (resolvedID rnd c) \<in> set (w_fields w)))"
proof (intro conjI impI ballI)
  assume "GetHeader c ''X-Request-ID'' \<noteq> []"
  then show "RequestIDMiddleware rnd handler c = handler (withRequestID (GetHeader c ''X-Request-ID'') c)"
    by (simp add: RequestIDMiddleware_eq resolvedID_def)
next
  assume "GetHeader c ''X-Request-ID'' = []"
  then show "RequestIDMiddleware rnd handler c = handler (withRequestID (generateRequestID rnd) c)"
    by (simp add: RequestIDMiddleware_eq resolvedID_def)
next
  show "length (generateRequestID rnd) = 36" by (rule generateRequestID_length)
next
  have "generateRequestID rnd \<noteq> []"
    using generateRequestID_length [of rnd] by auto
  then show "resolvedID rnd c \<noteq> []" by (simp add: resolvedID_def)
next
  show "GetString (withRequestID rid c) ''requestId'' = rid" by (rule withRequestID_GetString)
next
  show "Header_Get (Writer_Header (withRequestID rid c)) ''X-Request-ID'' = rid"
    by (rule withRequestID_header)
next
  assume a: "Init unmarshalText config m0 = (None, m)
        \<and> Errors (route (withRequestID (resolvedID rnd c) c)) = []
        \<and> GetString (route (withRequestID (resolvedID rnd c) c)) ''requestId''
            = GetString (withRequestID (resolvedID rnd c) c) ''requestId''
        \<and> Header_Get (Writer_Header (route (withRequestID (resolvedID rnd c) c))) ''X-Request-ID''
            = Header_Get (Writer_Header (withRequestID (resolvedID rnd c) c)) ''X-Request-ID''"
  then show "Header_Get (Writer_Header (snd (RequestIDMiddleware rnd (GinZap m start finish route) c)))
            ''X-Request-ID'' = resolvedID rnd c"
    by (simp add: RequestIDMiddleware_eq GinZap_no_errors withRequestID_header)
next
  fix w
  assume a: "Init unmarshalText config m0 = (None, m)
        \<and> Errors (route (withRequestID (resolvedID rnd c) c)) = []
        \<and> GetString (route (withRequestID (resolvedID rnd c) c)) ''requestId''
            = GetString (withRequestID (resolvedID rnd c) c) ''requestId''
        \<and> Header_Get (Writer_Header (route (withRequestID (resolvedID rnd c) c))) ''X-Request-ID''
            = Header_Get (Writer_Header (withRequestID (resolvedID rnd c) c)) ''X-Request-ID''"
    and w: "w \<in> set (snd (fst (RequestIDMiddleware rnd (GinZap m start finish route) c)))"
  then show "ent_Level (w_entry w) = InfoLevel"
    by (rule completion_record_of_chain [THEN conjunct1])
next
  fix w
  assume a: "Init unmarshalText config m0 = (None, m)
        \<and> Errors (route (withRequestID (resolvedID rnd c) c)) = []
        \<and> GetString (route (withRequestID (resolvedID rnd c) c)) ''requestId''
            = GetString (withRequestID (resolvedID rnd c) c) ''requestId''
        \<and> Header_Get (Writer_Header (route (withRequestID (resolvedID rnd c) c))) ''X-Request-ID''
            = Header_Get (Writer_Header (withRequestID (resolvedID rnd c) c)) ''X-Request-ID''"
    and w: "w \<in> set (snd (fst (RequestIDMiddleware rnd (GinZap m start finish route) c)))"
  then show "ZString ''request-id'' (resolvedID rnd c) \<in> set (w_fields w)"
    by (rule completion_record_of_chain [THEN conjunct2])
qed

theorem RequestIDMiddleware_resolves_and_proceeds_witness:
  "GetHeader healthContext ''X-Request-ID'' = ''abc''
   \<and> RequestIDMiddleware exampleRandom healthHandler healthContext
        = healthHandler (withRequestID ''abc'' healthContext)
   \<and> GetHeader anonContext ''X-Request-ID'' = []
   \<and> RequestIDMiddleware exampleRandom healthHandler anonContext
        = healthHandler (withRequestID ''00010203-0405-4607-8809-0a0b0c0d0e0f'' anonContext)
   \<and> Init UnmarshalText devConfig startMemory = (None, devMemory)
   \<and> Errors (healthHandler (withRequestID ''abc'' healthContext)) = []
   \<and> Header_Get (Writer_Header (snd (RequestIDMiddleware exampleRandom
          (GinZap devMemory 100 250 healthHandler) healthContext))) ''X-Request-ID'' = ''abc''
   \<and> hd (snd (fst (RequestIDMiddleware exampleRandom (GinZap devMemory 100 250 healthHandler) healthContext)))
        \<in> set (snd (fst (RequestIDMiddleware exampleRandom (GinZap devMemory 100 250 healthHandler) healthContext)))
   \<and> ZString ''request-id'' ''abc''
        \<in> set (w_fields (hd (snd (fst (RequestIDMiddleware exampleRandom
              (GinZap devMemory 100 250 healthHandler) healthContext)))))"
proof -
  let ?run = "RequestIDMiddleware exampleRandom (GinZap devMemory 100 250 healthHandler) healthContext"
  have hne: "GetHeader healthContext ''X-Request-ID'' \<noteq> []" by (simp add: health_header)
  note t = RequestIDMiddleware_resolves_and_proceeds
    [where c = healthContext and rnd = exampleRandom and handler = healthHandler
       and unmarshalText = UnmarshalText and config = devConfig and ?m0.0 = startMemory
       and m = devMemory and route = healthHandler and start = 100 and finish = 250]
  note u = RequestIDMiddleware_resolves_and_proceeds
    [where c = anonContext and rnd = exampleRandom and handler = healthHandler]
  from t hne have 1: "RequestIDMiddleware exampleRandom healthHandler healthContext
        = healthHandler (withRequestID ''abc'' healthContext)"
    by (simp add: health_header)
  from u anon_header have 2: "RequestIDMiddleware exampleRandom healthHandler anonContext
        = healthHandler (withRequestID ''00010203-0405-4607-8809-0a0b0c0d0e0f'' anonContext)"
    by (simp add: example_uuid)
  have pre: "Init UnmarshalText devConfig startMemory = (None, devMemory)
        \<and> Errors (healthHandler (withRequestID (resolvedID exampleRandom healthContext) healthContext)) = []
        \<and> GetString (healthHandler (withRequestID (resolvedID exampleRandom healthContext) healthContext)) ''requestId''
            = GetString (withRequestID (resolvedID exampleRandom healthContext) healthContext) ''requestId''
        \<and> Header_Get (Writer_Header (healthHandler (withRequestID (resolvedID exampleRandom healthContext) healthContext))) ''X-Request-ID''
            = Header_Get (Writer_Header (withRequestID (resolvedID exampleRandom healthContext) healthContext)) ''X-Request-ID''"
    using dev_Init_devMemory health_route by blast
  from t pre have 3: "Header_Get (Writer_Header (snd ?run)) ''X-Request-ID'' = resolvedID exampleRandom healthContext"
    and 4: "\<forall>w \<in> set (snd (fst ?run)).
              ent_Level (w_entry w) = InfoLevel
              \<and> ZString ''request-id'' (resolvedID exampleRandom healthContext) \<in> set (w_fields w)"
    by blast+
  have "map w_sink (snd (fst ?run)) = [Lock_Stdout, AddSync 0]"
    by (simp add: RequestIDMiddleware_eq health_resolved health_completion_sinks)
  then have "snd (fst ?run) \<noteq> []" by auto
  then have mem: "hd (snd (fst ?run)) \<in> set (snd (fst ?run))" by simp
  with 4 have 5: "ZString ''request-id'' ''abc'' \<in> set (w_fields (hd (snd (fst ?run))))"
    by (simp add: health_resolved)
  from 3 have 6: "Header_Get (Writer_Header (snd ?run)) ''X-Request-ID'' = ''abc''"
    by (simp add: health_resolved)
  from health_header 1 anon_header 2 dev_Init_devMemory health_route(1) 6 mem 5
  show ?thesis by blast
qed

end
